theory Spec2Isabelle
  imports Complex_Main "HOL-Library.AList"
begin

section \<open>The dataset augmentor of \<^verbatim>\<open>generer_dataset.py\<close>\<close>

text \<open>
  The script loads a CSV table of predictors, checks that three columns are present,
  adds the columns \<^verbatim>\<open>Final_Exam_Score\<close> and \<^verbatim>\<open>Passed_Course\<close> and writes the table
  to a new CSV file. The model follows the script top to bottom. What the script
  delegates to pandas, numpy and the operating system (parsing, the random generator,
  writing the file) is a parameter of the model; what pandas does to a column
  (arithmetic, \<^verbatim>\<open>clip\<close>, comparison, column assignment, \<^verbatim>\<open>drop\<close>) is written out,
  and so is the float64 arithmetic in which the columns are computed.
\<close>

subsection \<open>Values of a table\<close>

text \<open>
  A float64 value (an IEEE 754 binary64, Python's \<^verbatim>\<open>float\<close>) is a finite number, plus or
  minus infinity, or NaN. NaN is what pandas stores for an empty cell of a numeric
  column; \<^verbatim>\<open>read_csv\<close> reads \<^verbatim>\<open>inf\<close> and \<^verbatim>\<open>-inf\<close> as the infinities. The finite values
  that occur are the doubles, the results of \<open>round64\<close> below. The sign of a zero is
  not modelled.
\<close>

datatype float64 = Fin real | PInf | NInf | NaN

text \<open>A cell of a loaded table: an integer, a float, or text (an \<^verbatim>\<open>object\<close> column).\<close>

datatype cell = IntCell int | FloatCell float64 | StrCell string

text \<open>
  The ways a run can end early. The first four are the failures the script reports and
  stops on (lines 44-47, 58-61, 65-69, 115-117); \<open>TypeError\<close> and \<open>KeyError\<close> are the
  Python exceptions that the column operations of lines 81-94 raise and nothing catches.
\<close>

datatype error =
    NotFoundError
  | ParseError
  | SchemaError "string list"
  | WriteError
  | TypeError
  | KeyError

text \<open>
  A data frame: the number of rows (the length of its index) and the columns in order,
  each a name with its cells.
\<close>

record dataframe =
  nrows :: nat
  cols :: "(string \<times> cell list) list"

definition columns :: "dataframe \<Rightarrow> string list" where
  "columns data = map fst (cols data)"

text \<open>
  What every frame built by \<^verbatim>\<open>read_csv\<close> satisfies: column names are distinct (pandas
  renames duplicates while parsing) and every column has one cell per row.
\<close>

definition wf_dataframe :: "dataframe \<Rightarrow> bool" where
  "wf_dataframe data \<longleftrightarrow>
     distinct (columns data) \<and> list_all (\<lambda>c. length (snd c) = nrows data) (cols data)"

text \<open>\<^verbatim>\<open>data[col]\<close>: the cells of the column, \<open>KeyError\<close> when there is no such column.\<close>

definition getitem :: "dataframe \<Rightarrow> string \<Rightarrow> error + cell list" where
  "getitem data col = (case map_of (cols data) col of None \<Rightarrow> Inl KeyError | Some cs \<Rightarrow> Inr cs)"

text \<open>
  \<^verbatim>\<open>data[col] = values\<close>: an existing column of that name gets the new cells and keeps
  its place; otherwise the column is appended after the last one.
\<close>

definition setitem :: "dataframe \<Rightarrow> string \<Rightarrow> cell list \<Rightarrow> dataframe" where
  "setitem data col values = data\<lparr>cols := AList.update col values (cols data)\<rparr>"

text \<open>\<^verbatim>\<open>data.drop(columns=[col])\<close>: the frame without the column of that name.\<close>

definition drop_column :: "dataframe \<Rightarrow> string \<Rightarrow> dataframe" where
  "drop_column data col = data\<lparr>cols := AList.delete col (cols data)\<rparr>"

subsection \<open>Rounding to float64\<close>

text \<open>
  Every float64 operation returns the exact result rounded to the nearest double, the
  one with the even last digit when two are equally near. \<open>rne\<close> rounds a real number
  to an integer in that way.
\<close>

definition rne :: "real \<Rightarrow> int" where
  "rne r =
     (let f = \<lfloor>r\<rfloor>; d = r - of_int f
      in if d < 1 / 2 then f else if 1 / 2 < d then f + 1 else if even f then f else f + 1)"

text \<open>
  The binary exponent of a positive number: \<open>binade x = e\<close> when
  \<open>2 powi e \<le> x < 2 powi (e + 1)\<close>. It is found by halving a number that is at least 2
  and doubling one that is below 1.
\<close>

function halvings :: "real \<Rightarrow> int" where
  "halvings x = (if 2 \<le> x then halvings (x / 2) + 1 else 0)"
  by pat_completeness auto
termination
proof (relation "measure (\<lambda>x. nat \<lfloor>x\<rfloor>)")
  show "wf (measure (\<lambda>x::real. nat \<lfloor>x\<rfloor>))" by simp
next
  fix x :: real
  assume "2 \<le> x"
  then have "x / 2 \<le> x - 1" by simp
  then have "\<lfloor>x / 2\<rfloor> \<le> \<lfloor>x - 1\<rfloor>" by (rule floor_mono)
  moreover have "2 \<le> \<lfloor>x\<rfloor>" using \<open>2 \<le> x\<close> by (simp add: le_floor_iff)
  ultimately show "(x / 2, x) \<in> measure (\<lambda>x. nat \<lfloor>x\<rfloor>)" by simp
qed

function doublings :: "real \<Rightarrow> int" where
  "doublings x = (if 0 < x \<and> x < 1 then doublings (2 * x) + 1 else 0)"
  by pat_completeness auto
termination
proof (relation "measure (\<lambda>x. nat \<lceil>1 / x\<rceil>)")
  show "wf (measure (\<lambda>x::real. nat \<lceil>1 / x\<rceil>))" by simp
next
  fix x :: real
  assume x: "0 < x \<and> x < 1"
  define t where "t = 1 / x"
  have t: "1 < t" using x by (simp add: t_def)
  have two: "2 \<le> \<lceil>t\<rceil>" using t by (simp add: le_ceiling_iff)
  have c1: "t \<le> real_of_int \<lceil>t\<rceil>" by (rule le_of_int_ceiling)
  have c2: "(2::real) \<le> real_of_int \<lceil>t\<rceil>" using two by linarith
  have c3: "real_of_int (\<lceil>t\<rceil> - 1) = real_of_int \<lceil>t\<rceil> - 1" by simp
  from c1 c2 have "t / 2 \<le> real_of_int (\<lceil>t\<rceil> - 1)"
    unfolding c3 by linarith
  then have "\<lceil>t / 2\<rceil> \<le> \<lceil>t\<rceil> - 1" by (rule iffD2 [OF ceiling_le_iff])
  then have less: "\<lceil>t / 2\<rceil> < \<lceil>t\<rceil>" by simp
  have half: "1 / (2 * x) = t / 2" by (simp add: t_def)
  have "nat \<lceil>1 / (2 * x)\<rceil> < nat \<lceil>1 / x\<rceil>"
    unfolding half t_def [symmetric] using less two by linarith
  then show "(2 * x, x) \<in> measure (\<lambda>x. nat \<lceil>1 / x\<rceil>)"
    by simp
qed

declare halvings.simps [simp del] doublings.simps [simp del]

definition binade :: "real \<Rightarrow> int" where
  "binade x = (if 1 \<le> x then halvings x else - doublings x)"

text \<open>
  The double nearest to \<open>x\<close>, were the exponent unbounded above. A double has 53
  binary digits, so in the binade \<open>e\<close> the doubles are the multiples of
  \<open>2 powi (e - 52)\<close>; below \<open>2 powi (- 1022)\<close> (the subnormal numbers) the spacing stays
  that of the binade \<open>- 1022\<close>.
\<close>

definition nearest :: "real \<Rightarrow> real" where
  "nearest x =
     (let e = max (binade \<bar>x\<bar>) (- 1022);
          m = rne (\<bar>x\<bar> * 2 powi (52 - e))
      in sgn x * of_int m * 2 powi (e - 52))"

text \<open>
  Rounding proper: a result whose nearest double would be \<open>2 ^ 1024\<close> or beyond
  overflows to the infinity of its sign. A Python float literal such as \<^verbatim>\<open>0.6\<close> denotes
  \<open>round64 0.6\<close>, and an integer converted to float is rounded in the same way.
\<close>

definition round64 :: "real \<Rightarrow> float64" where
  "round64 x =
     (if 2 ^ 1024 \<le> \<bar>nearest x\<bar> then (if x < 0 then NInf else PInf) else Fin (nearest x))"

subsection \<open>Arithmetic on columns\<close>

text \<open>
  Arithmetic on a column works cell by cell. An integer is converted to a float, NaN
  stays NaN, and a text cell raises \<open>TypeError\<close> (a float times a \<^verbatim>\<open>str\<close>).
\<close>

fun to_float :: "cell \<Rightarrow> error + float64" where
  "to_float (IntCell i) = Inr (round64 (of_int i))"
| "to_float (FloatCell x) = Inr x"
| "to_float (StrCell s) = Inl TypeError"

fun floats_of :: "cell list \<Rightarrow> error + float64 list" where
  "floats_of [] = Inr []"
| "floats_of (c # cs) =
     (case to_float c of
        Inl e \<Rightarrow> Inl e
      | Inr x \<Rightarrow> (case floats_of cs of Inl e \<Rightarrow> Inl e | Inr xs \<Rightarrow> Inr (x # xs)))"

text \<open>The numeric view of \<^verbatim>\<open>data[col]\<close> that the operators below work on.\<close>

definition series :: "dataframe \<Rightarrow> string \<Rightarrow> error + float64 list" where
  "series data col = (case getitem data col of Inl e \<Rightarrow> Inl e | Inr cs \<Rightarrow> floats_of cs)"

text \<open>
  The float64 product: NaN when a factor is NaN or when zero meets an infinity, the
  infinity of the product's sign when a factor is infinite, and the rounded exact
  product otherwise.
\<close>

fun fmul :: "float64 \<Rightarrow> float64 \<Rightarrow> float64" where
  "fmul NaN _ = NaN"
| "fmul _ NaN = NaN"
| "fmul (Fin x) (Fin y) = round64 (x * y)"
| "fmul (Fin x) PInf = (if x = 0 then NaN else if 0 < x then PInf else NInf)"
| "fmul (Fin x) NInf = (if x = 0 then NaN else if 0 < x then NInf else PInf)"
| "fmul PInf (Fin y) = (if y = 0 then NaN else if 0 < y then PInf else NInf)"
| "fmul NInf (Fin y) = (if y = 0 then NaN else if 0 < y then NInf else PInf)"
| "fmul PInf PInf = PInf"
| "fmul PInf NInf = NInf"
| "fmul NInf PInf = NInf"
| "fmul NInf NInf = PInf"

text \<open>
  The float64 sum: NaN when a summand is NaN or when the two infinities meet, an
  infinite summand otherwise when there is one, and the rounded exact sum of two finite
  numbers.
\<close>

fun fadd :: "float64 \<Rightarrow> float64 \<Rightarrow> float64" where
  "fadd NaN _ = NaN"
| "fadd _ NaN = NaN"
| "fadd (Fin x) (Fin y) = round64 (x + y)"
| "fadd PInf NInf = NaN"
| "fadd NInf PInf = NaN"
| "fadd PInf _ = PInf"
| "fadd _ PInf = PInf"
| "fadd NInf _ = NInf"
| "fadd _ NInf = NInf"

text \<open>The difference \<open>x - y\<close> is the sum of \<open>x\<close> and the negated \<open>y\<close>.\<close>

fun fneg :: "float64 \<Rightarrow> float64" where
  "fneg (Fin x) = Fin (- x)"
| "fneg PInf = NInf"
| "fneg NInf = PInf"
| "fneg NaN = NaN"

definition fsub :: "float64 \<Rightarrow> float64 \<Rightarrow> float64" where
  "fsub x y = fadd x (fneg y)"

text \<open>
  \<^verbatim>\<open>clip(lower, upper)\<close>: a value below \<open>lower\<close> becomes \<open>lower\<close>, one above \<open>upper\<close>
  becomes \<open>upper\<close>, the infinities included; NaN compares false with both bounds and is
  left as it is.
\<close>

fun fclip :: "real \<Rightarrow> real \<Rightarrow> float64 \<Rightarrow> float64" where
  "fclip lower upper (Fin x) = Fin (min (max x lower) upper)"
| "fclip lower upper PInf = Fin upper"
| "fclip lower upper NInf = Fin lower"
| "fclip lower upper NaN = NaN"

text \<open>\<^verbatim>\<open>x >= t\<close> on floats: false for NaN.\<close>

fun fge :: "float64 \<Rightarrow> real \<Rightarrow> bool" where
  "fge (Fin x) t \<longleftrightarrow> t \<le> x"
| "fge PInf t \<longleftrightarrow> True"
| "fge NInf t \<longleftrightarrow> False"
| "fge NaN t \<longleftrightarrow> False"

text \<open>\<^verbatim>\<open>.astype(int)\<close> on a boolean: \<open>True\<close> is 1 and \<open>False\<close> is 0.\<close>

definition astype_int :: "bool \<Rightarrow> int" where
  "astype_int b = (if b then 1 else 0)"

subsection \<open>Configuration (lines 16-38)\<close>

record config =
  input_filename :: string
  output_filename :: string
  input_delimiter :: string
  output_delimiter :: string
  base_score :: real
  weight_hours :: real
  weight_prev :: real
  weight_attendance :: real
  bruit_amplitude :: real
  note_passage :: real

text \<open>The values the script is shipped with. The two accented letters of the output name
  are their UTF-8 bytes.\<close>

definition default_config :: config where
  "default_config =
     \<lparr> input_filename = ''mockaroo_predicteurs.csv'',
       output_filename =
         ''dataset_etudiant_corr'' @ [CHR 0xC3, CHR 0xA9] @ ''l'' @ [CHR 0xC3, CHR 0xA9] @ ''.csv'',
       input_delimiter = '','',
       output_delimiter = '','',
       base_score = 8.0,
       weight_hours = 0.6,
       weight_prev = 0.15,
       weight_attendance = 0.02,
       bruit_amplitude = 1.5,
       note_passage = 15.0 \<rparr>"

subsection \<open>Validation (lines 64-69)\<close>

definition required_predictors :: "string list" where
  "required_predictors = [''Hours_Studied'', ''Previous_Score'', ''Attendance_Rate'']"

definition has_required_predictors :: "dataframe \<Rightarrow> bool" where
  "has_required_predictors data \<longleftrightarrow>
     list_all (\<lambda>col. col \<in> set (columns data)) required_predictors"

definition missing :: "dataframe \<Rightarrow> string list" where
  "missing data = filter (\<lambda>col. col \<notin> set (columns data)) required_predictors"

subsection \<open>The target columns (lines 78-97)\<close>

text \<open>
  \<^verbatim>\<open>np.random.rand(n)\<close> returns the next \<open>n\<close> draws of the generator, each a double
  \<open>k / 2 ^ 53\<close> with \<open>0 \<le> k < 2 ^ 53\<close>, so in \<open>[0, 1)\<close>. The generator is the sequence
  \<open>rand\<close> of real numbers; a draw is the fractional part of the next one, cut to 53
  binary digits.
\<close>

definition np_random_rand :: "(nat \<Rightarrow> real) \<Rightarrow> nat \<Rightarrow> float64 list" where
  "np_random_rand rand n = map (\<lambda>i. Fin (of_int \<lfloor>frac (rand i) * 2 ^ 53\<rfloor> / 2 ^ 53)) [0 ..< n]"

text \<open>Line 78: each draw minus 0.5, times the amplitude.\<close>

definition bruit_aleatoire :: "config \<Rightarrow> (nat \<Rightarrow> real) \<Rightarrow> dataframe \<Rightarrow> float64 list" where
  "bruit_aleatoire cfg rand data =
     map (\<lambda>draw. fmul (fsub draw (Fin 0.5)) (round64 (bruit_amplitude cfg)))
       (np_random_rand rand (nrows data))"

text \<open>
  Lines 81-85, evaluated left to right as Python does: the base plus the three weighted
  columns plus the noise, row by row, every product and every sum rounded.
\<close>

definition Final_Exam_Score_brut ::
    "config \<Rightarrow> (nat \<Rightarrow> real) \<Rightarrow> dataframe \<Rightarrow> error + float64 list" where
  "Final_Exam_Score_brut cfg rand data =
     (case series data ''Hours_Studied'' of
        Inl e \<Rightarrow> Inl e
      | Inr hours \<Rightarrow>
          (case series data ''Previous_Score'' of
             Inl e \<Rightarrow> Inl e
           | Inr prev \<Rightarrow>
               (case series data ''Attendance_Rate'' of
                  Inl e \<Rightarrow> Inl e
                | Inr attendance \<Rightarrow>
                    Inr (map2 fadd
                          (map2 fadd
                            (map2 fadd
                              (map (fadd (round64 (base_score cfg)))
                                (map (fmul (round64 (weight_hours cfg))) hours))
                              (map (fmul (round64 (weight_prev cfg))) prev))
                            (map (fmul (round64 (weight_attendance cfg))) attendance))
                          (bruit_aleatoire cfg rand data)))))"

text \<open>
  Lines 81-97. Each derived column is stored in the frame and read back from it, as the
  script does; the temporary column is dropped at the end.
\<close>

definition generate :: "config \<Rightarrow> (nat \<Rightarrow> real) \<Rightarrow> dataframe \<Rightarrow> error + dataframe" where
  "generate cfg rand data =
     (case Final_Exam_Score_brut cfg rand data of
        Inl e \<Rightarrow> Inl e
      | Inr brut \<Rightarrow>
          (let data1 = setitem data ''Final_Exam_Score_brut'' (map FloatCell brut) in
           (case series data1 ''Final_Exam_Score_brut'' of
              Inl e \<Rightarrow> Inl e
            | Inr raw \<Rightarrow>
                (let data2 = setitem data1 ''Final_Exam_Score''
                               (map FloatCell (map (fclip 0.0 20.0) raw)) in
                 (case series data2 ''Final_Exam_Score'' of
                    Inl e \<Rightarrow> Inl e
                  | Inr score \<Rightarrow>
                      (let data3 = setitem data2 ''Passed_Course''
                                     (map IntCell
                                       (map (\<lambda>x. astype_int (fge x (note_passage cfg))) score))
                       in Inr (drop_column data3 ''Final_Exam_Score_brut'')))))))"

subsection \<open>The run (lines 42-119)\<close>

text \<open>
  The file system maps a path to the content of the file there. \<^verbatim>\<open>pd.read_csv\<close> turns a
  content and a delimiter into a frame, or raises. \<^verbatim>\<open>to_csv\<close> gets the frame, the path,
  the delimiter and the \<^verbatim>\<open>index\<close> flag. It writes the whole text, or fails before the
  destination is opened (no such directory, no permission), or fails after it has
  opened, and so created or truncated, the destination (the disk fills up): then what
  was written so far stays there.
\<close>

type_synonym filesystem = "string \<rightharpoonup> string"

record to_csv_call =
  frame :: dataframe
  path_or_buf :: string
  sep :: string
  index :: bool

datatype write_result = Written string | Failed_unopened | Failed_partial string

record library =
  read_csv :: "string \<Rightarrow> string \<Rightarrow> dataframe option"
  to_csv :: "to_csv_call \<Rightarrow> write_result"

text \<open>Lines 108-117: the export. A failure is caught and reported; the file is not removed.\<close>

definition export :: "library \<Rightarrow> filesystem \<Rightarrow> to_csv_call \<Rightarrow> (error + unit) \<times> filesystem" where
  "export lib fs call =
     (case to_csv lib call of
        Written text \<Rightarrow> (Inr (), fs(path_or_buf call \<mapsto> text))
      | Failed_unopened \<Rightarrow> (Inl WriteError, fs)
      | Failed_partial text \<Rightarrow> (Inl WriteError, fs(path_or_buf call \<mapsto> text)))"

text \<open>The script: how it ended and the file system it leaves.\<close>

definition main ::
    "config \<Rightarrow> library \<Rightarrow> (nat \<Rightarrow> real) \<Rightarrow> filesystem \<Rightarrow> (error + unit) \<times> filesystem" where
  "main cfg lib rand fs =
     (case fs (input_filename cfg) of
        None \<Rightarrow> (Inl NotFoundError, fs)
      | Some content \<Rightarrow>
          (case read_csv lib content (input_delimiter cfg) of
             None \<Rightarrow> (Inl ParseError, fs)
           | Some data \<Rightarrow>
               if \<not> has_required_predictors data then (Inl (SchemaError (missing data)), fs)
               else
                 (case generate cfg rand data of
                    Inl e \<Rightarrow> (Inl e, fs)
                  | Inr data' \<Rightarrow>
                      export lib fs
                        \<lparr> frame = data', path_or_buf = output_filename cfg,
                          sep = output_delimiter cfg, index = False \<rparr>)))"

subsection \<open>Comparing two runs\<close>

text \<open>
  \<open>fle\<close> is \<^verbatim>\<open>x <= y\<close> on floats: false when either is NaN, and the infinities at the two
  ends. A predictor value is kept or raised from one run to another when it is NaN in
  both or not larger in the first.
\<close>

fun fle :: "float64 \<Rightarrow> float64 \<Rightarrow> bool" where
  "fle NaN _ \<longleftrightarrow> False"
| "fle _ NaN \<longleftrightarrow> False"
| "fle NInf _ \<longleftrightarrow> True"
| "fle _ PInf \<longleftrightarrow> True"
| "fle (Fin x) (Fin y) \<longleftrightarrow> x \<le> y"
| "fle _ _ \<longleftrightarrow> False"



subsection \<open>Example inputs\<close>

text \<open>
  The draws, configurations, tables, files and libraries on which the theorems below
  are instantiated. Two generators, one that always draws 0.5 (no noise) and one that
  always draws 0.25:
\<close>

definition mid_draw :: "nat \<Rightarrow> real" where
  "mid_draw i = 0.5"

definition quarter_draw :: "nat \<Rightarrow> real" where
  "quarter_draw i = 0.25"

text \<open>The shipped configuration with the noise switched off.\<close>

definition no_noise_config :: config where
  "no_noise_config = default_config\<lparr>bruit_amplitude := 0\<rparr>"

text \<open>
  A table of two students with an extra text column, and what lines 78-97 make of it
  when every draw is 0.5. The rows are the two scenarios of the specification: the raw
  scores are 27.8 and 8.0.
\<close>

definition two_students :: dataframe where
  "two_students =
     \<lparr> nrows = 2,
       cols = [(''Name'', [StrCell ''Ada'', StrCell ''Bob'']),
               (''Hours_Studied'', [IntCell 10, IntCell 0]),
               (''Previous_Score'', [IntCell 80, IntCell 0]),
               (''Attendance_Rate'', [FloatCell (Fin 90), FloatCell (Fin 0)])] \<rparr>"

definition two_students_out :: dataframe where
  "two_students_out =
     \<lparr> nrows = 2,
       cols = [(''Name'', [StrCell ''Ada'', StrCell ''Bob'']),
               (''Hours_Studied'', [IntCell 10, IntCell 0]),
               (''Previous_Score'', [IntCell 80, IntCell 0]),
               (''Attendance_Rate'', [FloatCell (Fin 90), FloatCell (Fin 0)]),
               (''Final_Exam_Score'', [FloatCell (Fin 20), FloatCell (Fin 8)]),
               (''Passed_Course'', [IntCell 1, IntCell 0])] \<rparr>"


text \<open>A row whose \<^verbatim>\<open>Hours_Studied\<close> cell is empty in the file.\<close>

definition blank_cell :: dataframe where
  "blank_cell =
     \<lparr> nrows = 1,
       cols = [(''Hours_Studied'', [FloatCell NaN]),
               (''Previous_Score'', [IntCell 80]),
               (''Attendance_Rate'', [IntCell 90])] \<rparr>"

text \<open>
  A row on which rounding shows: in exact arithmetic 8 + 0.6 * 9 + 0.02 * 80 is 15, the
  threshold.
\<close>

definition nine_hours :: dataframe where
  "nine_hours =
     \<lparr> nrows = 1,
       cols = [(''Hours_Studied'', [IntCell 9]),
               (''Previous_Score'', [IntCell 0]),
               (''Attendance_Rate'', [IntCell 80])] \<rparr>"



text \<open>A row whose \<^verbatim>\<open>Hours_Studied\<close> cell is not a number.\<close>

definition text_cell :: dataframe where
  "text_cell =
     \<lparr> nrows = 1,
       cols = [(''Hours_Studied'', [StrCell ''ten'']),
               (''Previous_Score'', [IntCell 80]),
               (''Attendance_Rate'', [IntCell 90])] \<rparr>"

text \<open>Tables that already have a column with the name of a derived column.\<close>

definition graded_before :: dataframe where
  "graded_before =
     \<lparr> nrows = 1,
       cols = [(''Final_Exam_Score'', [IntCell 3]),
               (''Hours_Studied'', [IntCell 10]),
               (''Previous_Score'', [IntCell 80]),
               (''Attendance_Rate'', [IntCell 90])] \<rparr>"

definition with_draft_column :: dataframe where
  "with_draft_column =
     \<lparr> nrows = 1,
       cols = [(''Hours_Studied'', [IntCell 0]),
               (''Previous_Score'', [IntCell 0]),
               (''Attendance_Rate'', [IntCell 0]),
               (''Final_Exam_Score_brut'', [StrCell ''draft''])] \<rparr>"

text \<open>A table without the column \<^verbatim>\<open>Attendance_Rate\<close>.\<close>

definition no_attendance :: dataframe where
  "no_attendance =
     \<lparr> nrows = 1,
       cols = [(''Hours_Studied'', [IntCell 10]),
               (''Previous_Score'', [IntCell 80])] \<rparr>"

text \<open>The texts of two input files.\<close>

definition students_csv :: string where
  "students_csv =
     ''Name,Hours_Studied,Previous_Score,Attendance_Rate'' @ [CHR 0x0A] @
     ''Ada,10,80,90.0'' @ [CHR 0x0A] @
     ''Bob,0,0,0.0'' @ [CHR 0x0A]"

definition no_attendance_csv :: string where
  "no_attendance_csv =
     ''Hours_Studied,Previous_Score'' @ [CHR 0x0A] @ ''10,80'' @ [CHR 0x0A]"

text \<open>
  A library that parses these two texts and nothing else, and whose \<^verbatim>\<open>to_csv\<close> writes
  the header line of the frame only; and the same library with a \<^verbatim>\<open>to_csv\<close> that
  fails after it has written the start of the header.
\<close>

fun header_line :: "string \<Rightarrow> string list \<Rightarrow> string" where
  "header_line delimiter [] = []"
| "header_line delimiter [name] = name"
| "header_line delimiter (name # names) = name @ delimiter @ header_line delimiter names"

definition sample_library :: library where
  "sample_library =
     \<lparr> read_csv = (\<lambda>content delimiter.
                      if delimiter \<noteq> '','' then None
                      else if content = students_csv then Some two_students
                      else if content = no_attendance_csv then Some no_attendance
                      else None),
       to_csv = (\<lambda>call. Written (header_line (sep call) (columns (frame call)))) \<rparr>"

definition disk_full_library :: library where
  "disk_full_library = sample_library\<lparr>to_csv := (\<lambda>call. Failed_partial ''Name,Hours_St'')\<rparr>"

text \<open>File systems: the input file is there, is there without a column, is not there.\<close>

definition sample_files :: filesystem where
  "sample_files = [''mockaroo_predicteurs.csv'' \<mapsto> students_csv]"

definition incomplete_files :: filesystem where
  "incomplete_files = [''mockaroo_predicteurs.csv'' \<mapsto> no_attendance_csv]"

definition no_files :: filesystem where
  "no_files = Map.empty"

section \<open>Properties\<close>

subsection \<open>Rounding\<close>

text \<open>Rounding to an integer is monotone and leaves integers alone.\<close>

lemma rne_floor: "\<lfloor>r\<rfloor> \<le> rne r" "rne r \<le> \<lfloor>r\<rfloor> + 1"
  by (simp_all add: rne_def Let_def)

lemma rne_le_int:
  assumes "r \<le> of_int k"
  shows "rne r \<le> k"
proof (cases "\<lfloor>r\<rfloor> < k")
  case True
  with rne_floor(2) [of r] show ?thesis by linarith
next
  case False
  moreover have "\<lfloor>r\<rfloor> \<le> k" using assms by (simp add: floor_le_iff)
  ultimately have "\<lfloor>r\<rfloor> = k" by simp
  then have "r = of_int k" using assms by linarith
  then show ?thesis by (simp add: rne_def Let_def)
qed

lemma rne_ge_int:
  assumes "of_int k \<le> r"
  shows "k \<le> rne r"
proof -
  from assms have "k \<le> \<lfloor>r\<rfloor>" by (simp add: le_floor_iff)
  with rne_floor(1) [of r] show ?thesis by linarith
qed

lemma rne_mono:
  assumes "r \<le> r'"
  shows "rne r \<le> rne r'"
proof (cases "\<lfloor>r\<rfloor> < \<lfloor>r'\<rfloor>")
  case True
  with rne_floor(2) [of r] rne_floor(1) [of r'] show ?thesis by linarith
next
  case False
  moreover have "\<lfloor>r\<rfloor> \<le> \<lfloor>r'\<rfloor>" using assms by (rule floor_mono)
  ultimately have "\<lfloor>r\<rfloor> = \<lfloor>r'\<rfloor>" by simp
  with assms show ?thesis
    by (auto simp add: rne_def Let_def)
qed

lemma halvings_bounds:
  "1 \<le> x \<Longrightarrow> 0 \<le> halvings x \<and> 2 powi halvings x \<le> x \<and> x < 2 powi (halvings x + 1)"
proof (induction x rule: halvings.induct)
  case (1 x)
  show ?case
  proof (cases "2 \<le> x")
    case True
    then have "1 \<le> x / 2" by simp
    from "1.IH" [OF True this]
    have h: "0 \<le> halvings (x / 2)" "2 powi halvings (x / 2) \<le> x / 2"
      "x / 2 < 2 powi (halvings (x / 2) + 1)"
      by simp_all
    have eq: "halvings x = halvings (x / 2) + 1"
      using True by (subst halvings.simps) simp
    from h show ?thesis
      unfolding eq by (simp add: power_int_add)
  next
    case False
    then have "halvings x = 0" by (subst halvings.simps) simp
    with False "1.prems" show ?thesis by simp
  qed
qed

lemma doublings_bounds:
  "0 < x \<Longrightarrow> x < 1 \<Longrightarrow>
     0 < doublings x \<and> 2 powi (- doublings x) \<le> x \<and> x < 2 powi (1 - doublings x)"
proof (induction x rule: doublings.induct)
  case (1 x)
  have eq: "doublings x = doublings (2 * x) + 1"
    using "1.prems" by (subst doublings.simps) simp
  show ?case
  proof (cases "2 * x < 1")
    case True
    from "1.IH" [OF _ _ True] "1.prems"
    have h: "0 < doublings (2 * x)" "2 powi (- doublings (2 * x)) \<le> 2 * x"
      "2 * x < 2 powi (1 - doublings (2 * x))"
      by simp_all
    from h show ?thesis
      unfolding eq by (simp add: power_int_diff power_int_minus field_simps)
  next
    case False
    then have "doublings (2 * x) = 0" by (subst doublings.simps) simp
    with False "1.prems" show ?thesis
      unfolding eq by (simp add: power_int_minus)
  qed
qed

lemma binade_bounds:
  assumes "0 < x"
  shows "2 powi binade x \<le> x" and "x < 2 powi (binade x + 1)"
  using assms halvings_bounds [of x] doublings_bounds [of x]
  by (auto simp add: binade_def not_le)

lemma binade_mono:
  assumes "0 < x" and "x \<le> y"
  shows "binade x \<le> binade y"
proof (rule ccontr)
  assume "\<not> binade x \<le> binade y"
  then have "binade y + 1 \<le> binade x" by simp
  then have "(2::real) powi (binade y + 1) \<le> 2 powi binade x"
    by (intro power_int_increasing) simp_all
  with binade_bounds(1) [OF assms(1)] binade_bounds(2) [of y] assms show False
    by linarith
qed

lemma nearest_minus: "nearest (- x) = - nearest x"
  by (simp add: nearest_def Let_def sgn_minus)

lemma nearest_nonneg:
  assumes "0 \<le> x"
  shows "0 \<le> nearest x"
proof -
  have "0 \<le> rne (\<bar>x\<bar> * 2 powi (52 - max (binade \<bar>x\<bar>) (- 1022)))"
    by (rule rne_ge_int) simp
  with assms show ?thesis
    by (simp add: nearest_def Let_def sgn_if)
qed

lemma nearest_pos:
  assumes "0 < x"
  shows "nearest x =
    of_int (rne (x * 2 powi (52 - max (binade x) (- 1022)))) * 2 powi (max (binade x) (- 1022) - 52)"
  using assms by (simp add: nearest_def Let_def)

lemma nearest_upper:
  assumes "0 < x"
  shows "nearest x \<le> 2 powi (max (binade x) (- 1022) + 1)"
proof -
  define e where "e = max (binade x) (- 1022)"
  have "x < 2 powi (binade x + 1)" using assms by (rule binade_bounds)
  also have "\<dots> \<le> 2 powi (e + 1)"
    by (intro power_int_increasing) (simp_all add: e_def)
  finally have "x * 2 powi (52 - e) \<le> 2 powi (e + 1) * 2 powi (52 - e)"
    by (intro mult_right_mono) simp_all
  also have "\<dots> = 2 powi (e + 1 + (52 - e))"
    by (rule power_int_add [symmetric]) simp
  also have "e + 1 + (52 - e) = 53" by simp
  finally have "x * 2 powi (52 - e) \<le> of_int (2 ^ 53)" by simp
  then have "rne (x * 2 powi (52 - e)) \<le> 2 ^ 53" by (rule rne_le_int)
  then have "real_of_int (rne (x * 2 powi (52 - e))) \<le> real_of_int (2 ^ 53)"
    by (simp only: of_int_le_iff)
  then have "real_of_int (rne (x * 2 powi (52 - e))) \<le> 2 powi 53" by simp
  then have "real_of_int (rne (x * 2 powi (52 - e))) * 2 powi (e - 52) \<le>
      2 powi 53 * 2 powi (e - 52)"
    by (intro mult_right_mono) simp_all
  also have "\<dots> = 2 powi (53 + (e - 52))"
    by (rule power_int_add [symmetric]) simp
  also have "53 + (e - 52) = e + 1" by simp
  finally show ?thesis
    unfolding nearest_pos [OF assms] e_def .
qed

lemma nearest_lower:
  assumes "0 < x" and "- 1022 \<le> binade x"
  shows "2 powi binade x \<le> nearest x"
proof -
  define e where "e = binade x"
  have max: "max (binade x) (- 1022) = e" using assms(2) by (simp add: e_def)
  have nx: "nearest x = real_of_int (rne (x * 2 powi (52 - e))) * 2 powi (e - 52)"
    unfolding nearest_pos [OF assms(1)] max ..
  have "2 powi e \<le> x" unfolding e_def using assms(1) by (rule binade_bounds)
  then have "2 powi e * 2 powi (52 - e) \<le> x * 2 powi (52 - e)"
    by (intro mult_right_mono) simp_all
  moreover have "2 powi e * 2 powi (52 - e) = (2::real) powi (e + (52 - e))"
    by (rule power_int_add [symmetric]) simp
  moreover have "e + (52 - e) = 52" by simp
  ultimately have "real_of_int (2 ^ 52) \<le> x * 2 powi (52 - e)" by simp
  then have "2 ^ 52 \<le> rne (x * 2 powi (52 - e))" by (rule rne_ge_int)
  then have "real_of_int (2 ^ 52) \<le> real_of_int (rne (x * 2 powi (52 - e)))"
    by (simp only: of_int_le_iff)
  then have "2 powi 52 \<le> real_of_int (rne (x * 2 powi (52 - e)))" by simp
  then have scaled: "2 powi 52 * 2 powi (e - 52) \<le>
      real_of_int (rne (x * 2 powi (52 - e))) * 2 powi (e - 52)"
    by (intro mult_right_mono) simp_all
  have joined: "2 powi 52 * 2 powi (e - 52) = (2::real) powi (52 + (e - 52))"
    by (rule power_int_add [symmetric]) simp
  have exponent: "52 + (e - 52) = e" by simp
  from scaled have "2 powi e \<le> real_of_int (rne (x * 2 powi (52 - e))) * 2 powi (e - 52)"
    unfolding joined exponent .
  then show ?thesis
    unfolding nx e_def .
qed

lemma nearest_mono_pos:
  assumes "0 < x" and "x \<le> y"
  shows "nearest x \<le> nearest y"
proof -
  have y: "0 < y" using assms by simp
  define e where "e = max (binade x) (- 1022)"
  define e' where "e' = max (binade y) (- 1022)"
  have le: "e \<le> e'"
    using binade_mono [OF assms] by (simp add: e_def e'_def)
  show ?thesis
  proof (cases "e = e'")
    case True
    have "x * 2 powi (52 - e) \<le> y * 2 powi (52 - e)"
      using assms(2) by (intro mult_right_mono) simp_all
    then have "rne (x * 2 powi (52 - e)) \<le> rne (y * 2 powi (52 - e))" by (rule rne_mono)
    then have "real_of_int (rne (x * 2 powi (52 - e))) \<le> of_int (rne (y * 2 powi (52 - e)))"
      by simp
    then have "real_of_int (rne (x * 2 powi (52 - e))) * 2 powi (e - 52) \<le>
        real_of_int (rne (y * 2 powi (52 - e))) * 2 powi (e - 52)"
      by (intro mult_right_mono) simp_all
    then show ?thesis
      unfolding nearest_pos [OF assms(1)] nearest_pos [OF y] e_def [symmetric]
        e'_def [symmetric] True [symmetric] .
  next
    case False
    with le have less: "e + 1 \<le> e'" by simp
    then have "- 1022 < e'" by (simp add: e_def)
    then have b: "binade y = e'" "- 1022 \<le> binade y" by (simp_all add: e'_def)
    have "nearest x \<le> 2 powi (e + 1)"
      unfolding e_def using assms(1) by (rule nearest_upper)
    also have "\<dots> \<le> 2 powi e'"
      using less by (intro power_int_increasing) simp_all
    also have "\<dots> \<le> nearest y"
      using nearest_lower [OF y b(2)] by (simp add: b(1))
    finally show ?thesis .
  qed
qed

lemma nearest_mono:
  assumes "x \<le> y"
  shows "nearest x \<le> nearest y"
proof -
  consider "0 < x" | "x \<le> 0" "0 \<le> y" | "y < 0" by linarith
  then show ?thesis
  proof cases
    case 1
    then show ?thesis using assms by (rule nearest_mono_pos)
  next
    case 2
    have "nearest x = - nearest (- x)" by (simp add: nearest_minus)
    moreover have "0 \<le> nearest (- x)" using 2(1) by (intro nearest_nonneg) simp
    moreover have "0 \<le> nearest y" using 2(2) by (rule nearest_nonneg)
    ultimately show ?thesis by linarith
  next
    case 3
    then have "0 < - y" "- y \<le> - x" using assms by simp_all
    then have "nearest (- y) \<le> nearest (- x)" by (rule nearest_mono_pos)
    then show ?thesis by (simp add: nearest_minus)
  qed
qed

lemma round64_not_NaN [simp]: "round64 x \<noteq> NaN" "NaN \<noteq> round64 x"
  by (simp_all add: round64_def)

lemma round64_mono:
  assumes "x \<le> y"
  shows "fle (round64 x) (round64 y)"
proof -
  from assms have m: "nearest x \<le> nearest y" by (rule nearest_mono)
  have sx: "x < 0 \<Longrightarrow> nearest x \<le> 0" "\<not> x < 0 \<Longrightarrow> 0 \<le> nearest x"
    using nearest_nonneg [of x] nearest_nonneg [of "- x"] by (simp_all add: nearest_minus)
  have sy: "y < 0 \<Longrightarrow> nearest y \<le> 0" "\<not> y < 0 \<Longrightarrow> 0 \<le> nearest y"
    using nearest_nonneg [of y] nearest_nonneg [of "- y"] by (simp_all add: nearest_minus)
  have big: "(0::real) < 2 ^ 1024" by simp
  show ?thesis
    using m sx sy assms big unfolding round64_def
    by (auto simp del: zero_less_power simp add: abs_if split: if_splits)
qed

lemma round64_minus: "round64 (- x) = fneg (round64 x)"
proof -
  have "nearest x = 0" if "x = 0"
    using that nearest_nonneg [of 0] nearest_minus [of 0] by simp
  then show ?thesis
    by (auto simp add: round64_def nearest_minus)
qed

text \<open>Evaluation of a rounding at a given number.\<close>

lemmas nearest_eval = nearest_def rne_def binade_def halvings.simps doublings.simps Let_def

lemmas round64_eval = round64_def nearest_eval

subsection \<open>Auxiliary facts\<close>

lemmas frame_ops = generate_def Final_Exam_Score_brut_def bruit_aleatoire_def
  np_random_rand_def fsub_def series_def getitem_def setitem_def drop_column_def astype_int_def
  default_config_def mid_draw_def round64_eval

lemma two_students_generated:
  "generate default_config mid_draw two_students = Inr two_students_out"
  by (simp add: frame_ops two_students_def two_students_out_def upt_rec)

lemma floats_of_length: "floats_of cs = Inr xs \<Longrightarrow> length xs = length cs"
  by (induction cs arbitrary: xs) (auto split: sum.splits)

lemma floats_of_FloatCell: "floats_of (map FloatCell xs) = Inr xs"
  by (induction xs) auto

lemma getitem_setitem_same: "getitem (setitem data col vs) col = Inr vs"
  by (simp add: getitem_def setitem_def update_conv')

lemma getitem_setitem_other:
  "col' \<noteq> col \<Longrightarrow> getitem (setitem data col vs) col' = getitem data col'"
  by (simp add: getitem_def setitem_def update_conv')

lemma getitem_drop_other:
  "col' \<noteq> col \<Longrightarrow> getitem (drop_column data col) col' = getitem data col'"
  by (simp add: getitem_def drop_column_def)

lemma getitem_drop_same: "getitem (drop_column data col) col = Inl KeyError"
  by (simp add: getitem_def drop_column_def delete_conv')

lemma series_setitem_floats: "series (setitem data col (map FloatCell xs)) col = Inr xs"
  by (simp add: series_def getitem_setitem_same floats_of_FloatCell)

lemma brut_Inr:
  "Final_Exam_Score_brut cfg rand data = Inr brut \<longleftrightarrow>
     (\<exists>hours prev attendance.
        series data ''Hours_Studied'' = Inr hours \<and>
        series data ''Previous_Score'' = Inr prev \<and>
        series data ''Attendance_Rate'' = Inr attendance \<and>
        brut = map2 fadd
                 (map2 fadd
                   (map2 fadd
                     (map (fadd (round64 (base_score cfg))) (map (fmul (round64 (weight_hours cfg))) hours))
                     (map (fmul (round64 (weight_prev cfg))) prev))
                   (map (fmul (round64 (weight_attendance cfg))) attendance))
                 (bruit_aleatoire cfg rand data))"
  by (auto simp add: Final_Exam_Score_brut_def split: sum.splits)

lemma generate_Inr:
  "generate cfg rand data = Inr out \<longleftrightarrow>
     (\<exists>brut. Final_Exam_Score_brut cfg rand data = Inr brut \<and>
        out = drop_column
                (setitem
                  (setitem (setitem data ''Final_Exam_Score_brut'' (map FloatCell brut))
                     ''Final_Exam_Score'' (map FloatCell (map (fclip 0.0 20.0) brut)))
                  ''Passed_Course''
                  (map IntCell
                    (map (\<lambda>x. astype_int (fge x (note_passage cfg)))
                      (map (fclip 0.0 20.0) brut))))
                ''Final_Exam_Score_brut'')"
  by (auto simp add: generate_def Let_def series_setitem_floats simp del: map_map
      split: sum.splits)

lemma generate_Inl:
  "generate cfg rand data = Inl e \<longleftrightarrow> Final_Exam_Score_brut cfg rand data = Inl e"
  by (auto simp add: generate_def Let_def series_setitem_floats simp del: map_map
      split: sum.splits)

lemma generate_Final_Exam_Score:
  assumes "generate cfg rand data = Inr out"
  shows "\<exists>brut. Final_Exam_Score_brut cfg rand data = Inr brut \<and>
           getitem out ''Final_Exam_Score'' = Inr (map FloatCell (map (fclip 0 20) brut)) \<and>
           getitem out ''Passed_Course'' =
             Inr (map IntCell
                   (map (\<lambda>x. astype_int (fge x (note_passage cfg))) (map (fclip 0 20) brut)))"
proof -
  from assms obtain brut where b: "Final_Exam_Score_brut cfg rand data = Inr brut"
    and out: "out = drop_column
                (setitem
                  (setitem (setitem data ''Final_Exam_Score_brut'' (map FloatCell brut))
                     ''Final_Exam_Score'' (map FloatCell (map (fclip 0.0 20.0) brut)))
                  ''Passed_Course''
                  (map IntCell
                    (map (\<lambda>x. astype_int (fge x (note_passage cfg)))
                      (map (fclip 0.0 20.0) brut))))
                ''Final_Exam_Score_brut''"
    unfolding generate_Inr by blast
  have "getitem out ''Final_Exam_Score'' = Inr (map FloatCell (map (fclip 0 20) brut))"
    unfolding out
    by (simp add: getitem_drop_other getitem_setitem_other getitem_setitem_same del: map_map)
  moreover have "getitem out ''Passed_Course'' =
      Inr (map IntCell
            (map (\<lambda>x. astype_int (fge x (note_passage cfg))) (map (fclip 0 20) brut)))"
    unfolding out
    by (simp add: getitem_drop_other getitem_setitem_other getitem_setitem_same del: map_map)
  ultimately show ?thesis using b by blast
qed

lemma fclip_range: "fclip 0 20 x = NaN \<or> (\<exists>r. fclip 0 20 x = Fin r \<and> 0 \<le> r \<and> r \<le> 20)"
  by (cases x) auto

lemma fclip_NaN:
  "fclip lower upper x = NaN \<longleftrightarrow> x = NaN"
  "NaN = fclip lower upper x \<longleftrightarrow> x = NaN"
  by (cases x; auto)+

lemma getitem_length:
  assumes "wf_dataframe data" and "getitem data col = Inr cs"
  shows "length cs = nrows data"
proof -
  from assms(2) have "map_of (cols data) col = Some cs"
    by (simp add: getitem_def split: option.splits)
  then have "(col, cs) \<in> set (cols data)"
    by (rule map_of_SomeD)
  with assms(1) show ?thesis
    by (auto simp add: wf_dataframe_def list_all_iff)
qed

lemma series_length:
  assumes "wf_dataframe data" and "series data col = Inr xs"
  shows "length xs = nrows data"
proof -
  from assms(2) obtain cs where cs: "getitem data col = Inr cs" and xs: "floats_of cs = Inr xs"
    by (auto simp add: series_def split: sum.splits)
  from floats_of_length [OF xs] getitem_length [OF assms(1) cs] show ?thesis by simp
qed

lemma length_bruit_aleatoire: "length (bruit_aleatoire cfg rand data) = nrows data"
  by (simp add: bruit_aleatoire_def np_random_rand_def)

lemma brut_length:
  assumes "wf_dataframe data" and "Final_Exam_Score_brut cfg rand data = Inr brut"
  shows "length brut = nrows data"
  using assms by (auto simp add: brut_Inr series_length length_bruit_aleatoire)

lemma nrows_generate: "generate cfg rand data = Inr out \<Longrightarrow> nrows out = nrows data"
  by (auto simp add: generate_Inr setitem_def drop_column_def)

lemma update_fresh: "k \<notin> fst ` set al \<Longrightarrow> AList.update k v al = al @ [(k, v)]"
  by (induction al) auto

lemma list_all_update:
  "list_all P al \<Longrightarrow> P (k, v) \<Longrightarrow> list_all P (AList.update k v al)"
  by (induction al) auto

lemma list_all_delete: "list_all P al \<Longrightarrow> list_all P (AList.delete k al)"
  by (induction al) auto

lemma wf_setitem:
  "wf_dataframe data \<Longrightarrow> length vs = nrows data \<Longrightarrow> wf_dataframe (setitem data col vs)"
  by (simp add: wf_dataframe_def setitem_def columns_def distinct_update list_all_update)

lemma wf_drop_column: "wf_dataframe data \<Longrightarrow> wf_dataframe (drop_column data col)"
  by (simp add: wf_dataframe_def drop_column_def columns_def distinct_delete list_all_delete)

lemma nrows_setitem: "nrows (setitem data col vs) = nrows data"
  by (simp add: setitem_def)

lemma columns_setitem:
  "columns (setitem data col vs) =
     (if col \<in> set (columns data) then columns data else columns data @ [col])"
  by (simp add: columns_def setitem_def update_keys)

lemma columns_drop_column: "columns (drop_column data col) = removeAll col (columns data)"
  by (simp add: columns_def drop_column_def delete_keys)

lemma filter_removeAll_excluded: "\<not> P x \<Longrightarrow> filter P (removeAll x xs) = filter P xs"
  by (induction xs) auto

lemma filter_columns_setitem:
  "\<not> P col \<Longrightarrow> filter P (columns (setitem data col vs)) = filter P (columns data)"
  by (simp add: columns_setitem)

lemma columns_image: "fst ` set (cols data) = set (columns data)"
  by (simp add: columns_def)

lemma generate_fresh_columns:
  assumes "generate cfg rand data = Inr out"
    and "''Final_Exam_Score_brut'' \<notin> set (columns data)"
    and "''Final_Exam_Score'' \<notin> set (columns data)"
    and "''Passed_Course'' \<notin> set (columns data)"
  shows "\<exists>brut. Final_Exam_Score_brut cfg rand data = Inr brut \<and>
           cols out =
             cols data @
               [(''Final_Exam_Score'', map FloatCell (map (fclip 0 20) brut)),
                (''Passed_Course'',
                   map IntCell
                     (map (\<lambda>x. astype_int (fge x (note_passage cfg)))
                       (map (fclip 0 20) brut)))]"
proof -
  from assms(1) obtain brut where b: "Final_Exam_Score_brut cfg rand data = Inr brut"
    and out: "out = drop_column
                (setitem
                  (setitem (setitem data ''Final_Exam_Score_brut'' (map FloatCell brut))
                     ''Final_Exam_Score'' (map FloatCell (map (fclip 0.0 20.0) brut)))
                  ''Passed_Course''
                  (map IntCell
                    (map (\<lambda>x. astype_int (fge x (note_passage cfg)))
                      (map (fclip 0.0 20.0) brut))))
                ''Final_Exam_Score_brut''"
    unfolding generate_Inr by blast
  let ?raw = "(''Final_Exam_Score_brut'', map FloatCell brut)"
  let ?score = "(''Final_Exam_Score'', map FloatCell (map (fclip 0 20) brut))"
  let ?passed = "(''Passed_Course'',
                   map IntCell
                     (map (\<lambda>x. astype_int (fge x (note_passage cfg)))
                       (map (fclip 0 20) brut)))"
  have fresh: "''Final_Exam_Score_brut'' \<notin> fst ` set (cols data)"
    "''Final_Exam_Score'' \<notin> fst ` set (cols data)"
    "''Passed_Course'' \<notin> fst ` set (cols data)"
    using assms(2-4) by (simp_all add: columns_image)
  have 1: "AList.update ''Final_Exam_Score_brut'' (snd ?raw) (cols data) = cols data @ [?raw]"
    using fresh(1) by (simp add: update_fresh)
  have 2: "AList.update ''Final_Exam_Score'' (snd ?score) (cols data @ [?raw]) =
             cols data @ [?raw, ?score]"
    using fresh(2) by (subst update_fresh) auto
  have 3: "AList.update ''Passed_Course'' (snd ?passed) (cols data @ [?raw, ?score]) =
             cols data @ [?raw, ?score, ?passed]"
    using fresh(3) by (subst update_fresh) auto
  have 4: "AList.delete ''Final_Exam_Score_brut'' (cols data @ [?raw, ?score, ?passed]) =
             cols data @ [?score, ?passed]"
  proof -
    have "AList.delete ''Final_Exam_Score_brut'' (cols data @ [?raw, ?score, ?passed]) =
            AList.delete ''Final_Exam_Score_brut'' (cols data) @
            AList.delete ''Final_Exam_Score_brut'' [?raw, ?score, ?passed]"
      by (simp add: AList.delete_eq)
    then show ?thesis
      using fresh(1) by simp
  qed
  have "cols out = cols data @ [?score, ?passed]"
    unfolding out using 1 2 3 4 by (simp add: setitem_def drop_column_def del: map_map)
  with b show ?thesis by blast
qed

lemmas run_ops = main_def export_def has_required_predictors_def required_predictors_def
  missing_def columns_def

lemma floats_of_Inl: "floats_of cs = Inl e \<Longrightarrow> e = TypeError"
proof (induction cs)
  case Nil
  then show ?case by simp
next
  case (Cons c cs)
  then show ?case
    by (cases c) (auto split: sum.splits)
qed

lemma series_Inl: "series data col = Inl e \<Longrightarrow> e = TypeError \<or> e = KeyError"
  by (auto simp add: series_def getitem_def split: sum.splits option.splits dest: floats_of_Inl)

lemma generate_Inl_kind:
  assumes "generate cfg rand data = Inl e"
  shows "e = TypeError \<or> e = KeyError"
proof -
  from assms have "Final_Exam_Score_brut cfg rand data = Inl e"
    by (simp add: generate_Inl)
  then show ?thesis
    by (auto simp add: Final_Exam_Score_brut_def split: sum.splits dest: series_Inl)
qed

lemma export_cases:
  "export lib fs call = (r, fs') \<Longrightarrow>
     (\<exists>text. to_csv lib call = Written text \<and> r = Inr () \<and> fs' = fs(path_or_buf call \<mapsto> text)) \<or>
     (to_csv lib call = Failed_unopened \<and> r = Inl WriteError \<and> fs' = fs) \<or>
     (\<exists>text. to_csv lib call = Failed_partial text \<and> r = Inl WriteError \<and>
        fs' = fs(path_or_buf call \<mapsto> text))"
  by (auto simp add: export_def split: write_result.splits)




lemma floats_of_StrCell: "StrCell s \<in> set cs \<Longrightarrow> floats_of cs = Inl TypeError"
proof (induction cs)
  case Nil
  then show ?case by simp
next
  case (Cons c cs)
  then show ?case
    by (cases c) (auto split: sum.splits dest: floats_of_Inl)
qed

lemma series_required:
  assumes "has_required_predictors data" and "col \<in> set required_predictors"
  shows "series data col \<noteq> Inl KeyError"
proof -
  from assms have "col \<in> set (columns data)"
    by (simp add: has_required_predictors_def list_all_iff)
  then have "map_of (cols data) col \<noteq> None"
    by (simp add: columns_def map_of_eq_None_iff)
  then obtain cs where "getitem data col = Inr cs"
    by (auto simp add: getitem_def)
  then have "series data col = floats_of cs"
    by (simp add: series_def)
  then show ?thesis
    by (cases "floats_of cs") (auto dest: floats_of_Inl)
qed

lemma brut_TypeError:
  assumes "has_required_predictors data"
    and "col \<in> set required_predictors"
    and "series data col = Inl TypeError"
  shows "Final_Exam_Score_brut cfg rand data = Inl TypeError"
proof -
  have kinds: "series data c = Inl e \<Longrightarrow> c \<in> set required_predictors \<Longrightarrow> e = TypeError"
    for c e
    using series_Inl [of data c e] series_required [OF assms(1), of c] by auto
  have names: "''Hours_Studied'' \<in> set required_predictors"
    "''Previous_Score'' \<in> set required_predictors"
    "''Attendance_Rate'' \<in> set required_predictors"
    by (simp_all add: required_predictors_def)
  from assms(2) have "col = ''Hours_Studied'' \<or> col = ''Previous_Score'' \<or>
      col = ''Attendance_Rate''"
    by (simp add: required_predictors_def)
  with assms(3) show ?thesis
    by (auto simp add: Final_Exam_Score_brut_def split: sum.splits dest: kinds [OF _ names(1)]
        kinds [OF _ names(2)] kinds [OF _ names(3)])
qed

subsection \<open>The noise\<close>

lemma round64_between:
  assumes "round64 a = Fin a'" and "round64 b = Fin b'" and "a \<le> x" and "x \<le> b"
  shows "\<exists>w. round64 x = Fin w \<and> a' \<le> w \<and> w \<le> b'"
proof -
  from round64_mono [OF assms(3)] assms(1) have lo: "fle (Fin a') (round64 x)" by simp
  from round64_mono [OF assms(4)] assms(2) have hi: "fle (round64 x) (Fin b')" by simp
  from lo hi show ?thesis
    by (cases "round64 x") simp_all
qed

lemma round64_small:
  "round64 0 = Fin 0" "round64 (1 / 2) = Fin (1 / 2)" "round64 (- (1 / 2)) = Fin (- (1 / 2))"
  by (simp_all add: round64_eval)

lemma np_random_rand_nth:
  assumes "i < n"
  shows "\<exists>d. np_random_rand rand n ! i = Fin d \<and> 0 \<le> d \<and> d < 1"
proof -
  define k where "k = \<lfloor>frac (rand i) * 2 ^ 53\<rfloor>"
  have f: "0 \<le> frac (rand i)" "frac (rand i) < 1"
    by (simp_all add: frac_lt_1)
  have "0 \<le> frac (rand i) * 2 ^ 53"
    using f(1) by simp
  then have k0: "0 \<le> k"
    unfolding k_def by simp
  have "frac (rand i) * 2 ^ 53 < 1 * 2 ^ 53"
    using f(2) by (intro mult_strict_right_mono) simp_all
  moreover have "real_of_int k \<le> frac (rand i) * 2 ^ 53"
    unfolding k_def by (rule of_int_floor_le)
  ultimately have k1: "real_of_int k < 2 ^ 53"
    by simp
  have "np_random_rand rand n ! i = Fin (of_int k / 2 ^ 53)"
    using assms by (simp add: np_random_rand_def k_def)
  moreover have "0 \<le> real_of_int k / 2 ^ 53"
    using k0 by simp
  moreover have "real_of_int k / 2 ^ 53 < 1"
    using k1 by simp
  ultimately show ?thesis by blast
qed

lemma centred_draw:
  assumes "0 \<le> d" and "d < 1"
  shows "\<exists>z. fsub (Fin d) (Fin 0.5) = Fin z \<and> - (1 / 2) \<le> z \<and> z \<le> 1 / 2"
proof -
  have "- (1 / 2) \<le> d + - (1 / 2)" "d + - (1 / 2) \<le> 1 / 2"
    using assms by simp_all
  from round64_between [OF round64_small(3) round64_small(2) this]
  show ?thesis
    by (simp add: fsub_def)
qed

lemma bruit_aleatoire_nth:
  assumes "i < nrows data"
  shows "\<exists>z. bruit_aleatoire cfg rand data ! i = fmul (Fin z) (round64 (bruit_amplitude cfg)) \<and>
           - (1 / 2) \<le> z \<and> z \<le> 1 / 2"
proof -
  from np_random_rand_nth [OF assms] obtain d
    where d: "np_random_rand rand (nrows data) ! i = Fin d" "0 \<le> d" "d < 1"
    by blast
  from centred_draw [OF d(2,3)] obtain z
    where z: "fsub (Fin d) (Fin 0.5) = Fin z" "- (1 / 2) \<le> z" "z \<le> 1 / 2"
    by blast
  have "i < length (np_random_rand rand (nrows data))"
    using assms by (simp add: np_random_rand_def)
  then have "bruit_aleatoire cfg rand data ! i =
      fmul (fsub (np_random_rand rand (nrows data) ! i) (Fin 0.5))
        (round64 (bruit_amplitude cfg))"
    by (simp add: bruit_aleatoire_def)
  with d(1) z show ?thesis
    by auto
qed

lemma noise_bounds:
  assumes "round64 (a / 2) = Fin (a / 2)" and "- (1 / 2) \<le> z" and "z \<le> 1 / 2"
  shows "\<exists>n. fmul (Fin z) (Fin a) = Fin n \<and> - (\<bar>a\<bar> / 2) \<le> n \<and> n \<le> \<bar>a\<bar> / 2"
proof -
  have "round64 (- (a / 2)) = Fin (- (a / 2))"
    using assms(1) by (simp add: round64_minus)
  with assms(1) have ends: "round64 (- (\<bar>a\<bar> / 2)) = Fin (- (\<bar>a\<bar> / 2))"
    "round64 (\<bar>a\<bar> / 2) = Fin (\<bar>a\<bar> / 2)"
    by (simp_all add: abs_if)
  have "\<bar>z\<bar> \<le> 1 / 2"
    using assms(2,3) by (simp only: abs_le_iff) simp
  then have "\<bar>z\<bar> * \<bar>a\<bar> \<le> (1 / 2) * \<bar>a\<bar>"
    by (intro mult_right_mono) simp_all
  then have "\<bar>z * a\<bar> \<le> \<bar>a\<bar> / 2"
    by (simp add: abs_mult)
  then have "z * a \<le> \<bar>a\<bar> / 2 \<and> - (z * a) \<le> \<bar>a\<bar> / 2"
    by (simp only: abs_le_iff)
  then have "- (\<bar>a\<bar> / 2) \<le> z * a" "z * a \<le> \<bar>a\<bar> / 2"
    by linarith+
  from round64_between [OF ends this] show ?thesis
    by simp
qed

lemma bruit_aleatoire_zero:
  assumes "bruit_amplitude cfg = 0"
  shows "bruit_aleatoire cfg rand data = replicate (nrows data) (Fin 0)"
proof (rule nth_equalityI)
  show "length (bruit_aleatoire cfg rand data) = length (replicate (nrows data) (Fin 0))"
    by (simp add: length_bruit_aleatoire)
next
  fix i
  assume "i < length (bruit_aleatoire cfg rand data)"
  then have i: "i < nrows data"
    by (simp add: length_bruit_aleatoire)
  from bruit_aleatoire_nth [OF i] obtain z
    where "bruit_aleatoire cfg rand data ! i = fmul (Fin z) (round64 (bruit_amplitude cfg))"
    by blast
  then have "bruit_aleatoire cfg rand data ! i = Fin 0"
    using assms by (simp add: round64_small)
  with i show "bruit_aleatoire cfg rand data ! i = replicate (nrows data) (Fin 0) ! i"
    by simp
qed

subsection \<open>Kept or raised values\<close>




lemma fle_round64_PInf [simp]: "fle (round64 x) PInf"
  by (cases "round64 x") simp_all

lemma fle_NInf_round64 [simp]: "fle NInf (round64 x)"
  by (cases "round64 x") simp_all





subsection \<open>Failed runs\<close>

lemma main_failed_cases:
  assumes "main cfg lib rand fs = (Inl e, fs')"
  shows "e \<noteq> WriteError \<and> fs' = fs \<or>
         e = WriteError \<and>
         (\<exists>content data out.
            fs (input_filename cfg) = Some content \<and>
            read_csv lib content (input_delimiter cfg) = Some data \<and>
            has_required_predictors data \<and> generate cfg rand data = Inr out \<and>
            (to_csv lib \<lparr> frame = out, path_or_buf = output_filename cfg,
                           sep = output_delimiter cfg, index = False \<rparr> = Failed_unopened \<and>
             fs' = fs \<or>
             (\<exists>written.
                to_csv lib \<lparr> frame = out, path_or_buf = output_filename cfg,
                               sep = output_delimiter cfg, index = False \<rparr> =
                  Failed_partial written \<and>
                fs' = fs(output_filename cfg \<mapsto> written))))"
proof (cases "fs (input_filename cfg)")
  case None
  with assms show ?thesis by (simp add: main_def)
next
  case (Some content)
  note present = this
  show ?thesis
  proof (cases "read_csv lib content (input_delimiter cfg)")
    case None
    with assms present show ?thesis by (simp add: main_def)
  next
    case (Some data)
    note parsed = this
    show ?thesis
    proof (cases "has_required_predictors data")
      case False
      with assms present parsed have "e = SchemaError (missing data)" and "fs' = fs"
        by (simp_all add: main_def)
      then show ?thesis by simp
    next
      case True
      note valid = this
      show ?thesis
      proof (cases "generate cfg rand data")
        case (Inl e')
        with assms present parsed valid have "e = e'" and "fs' = fs"
          by (simp_all add: main_def)
        moreover from Inl have "e' \<noteq> WriteError"
          by (auto dest: generate_Inl_kind)
        ultimately show ?thesis by simp
      next
        case (Inr out)
        define call where
          "call = \<lparr> frame = out, path_or_buf = output_filename cfg,
                     sep = output_delimiter cfg, index = False \<rparr>"
        from assms present parsed valid Inr have "export lib fs call = (Inl e, fs')"
          by (simp add: main_def call_def)
        from export_cases [OF this]
        have e: "e = WriteError"
          and files: "(to_csv lib call = Failed_unopened \<and> fs' = fs) \<or>
            (\<exists>written. to_csv lib call = Failed_partial written \<and>
               fs' = fs(output_filename cfg \<mapsto> written))"
          by (auto simp add: call_def)
        from e files present parsed valid Inr show ?thesis
          unfolding call_def by blast
      qed
    qed
  qed
qed

subsection \<open>Finite results\<close>

lemma round64_Fin_bound:
  assumes "round64 x = Fin a"
  shows "\<bar>a\<bar> < 2 ^ 1024"
  using assms by (simp add: round64_def split: if_splits)

lemma round64_finite_pos:
  assumes "0 < x" and "x < 2 powi 1023"
  shows "\<exists>w. round64 x = Fin w"
proof -
  have "binade x \<le> 1022"
  proof (rule ccontr)
    assume "\<not> binade x \<le> 1022"
    then have "1023 \<le> binade x" by simp
    then have "(2::real) powi 1023 \<le> 2 powi binade x"
      by (intro power_int_increasing) simp_all
    with binade_bounds(1) [OF assms(1)] assms(2) show False
      by linarith
  qed
  then have "max (binade x) (- 1022) + 1 \<le> 1023" by simp
  then have "(2::real) powi (max (binade x) (- 1022) + 1) \<le> 2 powi 1023"
    by (intro power_int_increasing) simp_all
  with nearest_upper [OF assms(1)] have "nearest x \<le> 2 powi 1023"
    by linarith
  moreover have "(2::real) powi 1023 < 2 powi 1024"
    by (intro power_int_strict_increasing) simp_all
  moreover have "(2::real) powi 1024 = 2 ^ 1024"
    by simp
  moreover have "0 \<le> nearest x"
    using assms(1) by (intro nearest_nonneg) simp
  ultimately have "\<bar>nearest x\<bar> < 2 ^ 1024"
    by (simp only: abs_of_nonneg)
  then show ?thesis
    by (simp add: round64_def del: power_int_numeral)
qed

lemma round64_finite:
  assumes "\<bar>x\<bar> < 2 powi 1023"
  shows "\<exists>w. round64 x = Fin w"
proof -
  consider "0 < x" | "x = 0" | "x < 0" by linarith
  then show ?thesis
  proof cases
    case 1
    with assms show ?thesis
      by (intro round64_finite_pos) simp_all
  next
    case 2
    then show ?thesis
      by (simp add: round64_small)
  next
    case 3
    with assms have "0 < - x" "- x < 2 powi 1023"
      by simp_all
    then obtain w where "round64 (- x) = Fin w"
      using round64_finite_pos by blast
    then have "fneg (round64 x) = Fin w"
      by (simp add: round64_minus)
    then show ?thesis
      by (cases "round64 x") simp_all
  qed
qed

lemma noise_finite:
  assumes "round64 amplitude = Fin a" and "- (1 / 2) \<le> z" and "z \<le> 1 / 2"
  shows "\<exists>n. fmul (Fin z) (Fin a) = Fin n"
proof -
  have "\<bar>z\<bar> \<le> 1 / 2"
    using assms(2,3) by (simp only: abs_le_iff) simp
  then have "\<bar>z\<bar> * \<bar>a\<bar> \<le> (1 / 2) * \<bar>a\<bar>"
    by (intro mult_right_mono) simp_all
  then have "\<bar>z * a\<bar> \<le> \<bar>a\<bar> / 2"
    by (simp add: abs_mult)
  moreover have "\<bar>a\<bar> < 2 powi 1024"
    using round64_Fin_bound [OF assms(1)] by simp
  moreover have "(2::real) powi 1024 = 2 * 2 powi 1023"
    using power_int_add [of "2::real" 1 1023] by simp
  ultimately have "\<bar>z * a\<bar> < 2 powi 1023"
    by linarith
  then show ?thesis
    by (simp add: round64_finite del: power_int_numeral)
qed

lemma product_finite:
  assumes "round64 h = Fin h" and "\<bar>w\<bar> \<le> 1"
  shows "\<exists>p. fmul (Fin w) (Fin h) = Fin p"
proof -
  have "round64 (- h) = Fin (- h)"
    using assms(1) by (simp add: round64_minus)
  with assms(1) have ends: "round64 (- \<bar>h\<bar>) = Fin (- \<bar>h\<bar>)" "round64 \<bar>h\<bar> = Fin \<bar>h\<bar>"
    by (simp_all add: abs_if)
  have "\<bar>w\<bar> * \<bar>h\<bar> \<le> 1 * \<bar>h\<bar>"
    using assms(2) by (intro mult_right_mono) simp_all
  then have "\<bar>w * h\<bar> \<le> \<bar>h\<bar>"
    by (simp add: abs_mult)
  then have "w * h \<le> \<bar>h\<bar> \<and> - (w * h) \<le> \<bar>h\<bar>"
    by (simp only: abs_le_iff)
  then have "- \<bar>h\<bar> \<le> w * h" "w * h \<le> \<bar>h\<bar>"
    by linarith+
  from round64_between [OF ends this] show ?thesis
    by auto
qed

lemma fadd_Fin_not_NaN:
  assumes "x \<noteq> NaN"
  shows "fadd x (Fin y) \<noteq> NaN"
  using assms by (cases x) simp_all

subsection \<open>Claims\<close>

text \<open>
  Claim C1, as amended. For every table on which the computation succeeds and every
  noise draw, each value of the output column \<^verbatim>\<open>Final_Exam_Score\<close> is NaN or a number
  in the closed interval from 0.0 to 20.0, and it is NaN in exactly the rows whose
  score before clamping is NaN. When the float64 values of the three weights are at
  most 1 in absolute value and that of the amplitude is finite (as shipped), the
  value is a number in the interval in every row whose three predictor cells hold
  finite doubles. (As the claim is written, for every validated table, it fails:
  validation looks at column names only, and \<^verbatim>\<open>clip\<close> leaves the NaN of a row with an
  empty predictor cell as it is.)
\<close>

theorem final_exam_score_clamped:
  assumes "generate cfg rand data = Inr out"
  shows "\<exists>hours prev attendance brut score.
           series data ''Hours_Studied'' = Inr hours \<and>
           series data ''Previous_Score'' = Inr prev \<and>
           series data ''Attendance_Rate'' = Inr attendance \<and>
           Final_Exam_Score_brut cfg rand data = Inr brut \<and>
           getitem out ''Final_Exam_Score'' = Inr (map FloatCell score) \<and>
           length score = length brut \<and>
           (\<forall>i < length score.
              (score ! i = NaN \<or> (\<exists>r. score ! i = Fin r \<and> 0 \<le> r \<and> r \<le> 20)) \<and>
              (score ! i = NaN \<longleftrightarrow> brut ! i = NaN) \<and>
              ((\<exists>wh wp wa a h p t.
                  round64 (weight_hours cfg) = Fin wh \<and> \<bar>wh\<bar> \<le> 1 \<and>
                  round64 (weight_prev cfg) = Fin wp \<and> \<bar>wp\<bar> \<le> 1 \<and>
                  round64 (weight_attendance cfg) = Fin wa \<and> \<bar>wa\<bar> \<le> 1 \<and>
                  round64 (bruit_amplitude cfg) = Fin a \<and>
                  hours ! i = Fin h \<and> round64 h = Fin h \<and>
                  prev ! i = Fin p \<and> round64 p = Fin p \<and>
                  attendance ! i = Fin t \<and> round64 t = Fin t) \<longrightarrow>
               (\<exists>r. score ! i = Fin r \<and> 0 \<le> r \<and> r \<le> 20)))"
proof -
  from generate_Final_Exam_Score [OF assms] obtain brut
    where b: "Final_Exam_Score_brut cfg rand data = Inr brut"
      and s: "getitem out ''Final_Exam_Score'' = Inr (map FloatCell (map (fclip 0 20) brut))"
    by blast
  from b obtain hours prev attendance
    where h: "series data ''Hours_Studied'' = Inr hours"
      and p: "series data ''Previous_Score'' = Inr prev"
      and a: "series data ''Attendance_Rate'' = Inr attendance"
      and brut: "brut = map2 fadd
                 (map2 fadd
                   (map2 fadd
                     (map (fadd (round64 (base_score cfg))) (map (fmul (round64 (weight_hours cfg))) hours))
                     (map (fmul (round64 (weight_prev cfg))) prev))
                   (map (fmul (round64 (weight_attendance cfg))) attendance))
                 (bruit_aleatoire cfg rand data)"
    unfolding brut_Inr by blast
  define score where "score = map (fclip 0 20) brut"
  have len: "length score = length brut"
    by (simp add: score_def)
  have rows: "(fclip 0 20 x = NaN \<or> (\<exists>r. fclip 0 20 x = Fin r \<and> 0 \<le> r \<and> r \<le> 20)) \<and>
      (fclip 0 20 x = NaN \<longleftrightarrow> x = NaN)" for x
    by (cases x) simp_all
  have all: "\<forall>i < length score.
      (score ! i = NaN \<or> (\<exists>r. score ! i = Fin r \<and> 0 \<le> r \<and> r \<le> 20)) \<and>
      (score ! i = NaN \<longleftrightarrow> brut ! i = NaN) \<and>
      ((\<exists>wh wp wa a h p t.
          round64 (weight_hours cfg) = Fin wh \<and> \<bar>wh\<bar> \<le> 1 \<and>
          round64 (weight_prev cfg) = Fin wp \<and> \<bar>wp\<bar> \<le> 1 \<and>
          round64 (weight_attendance cfg) = Fin wa \<and> \<bar>wa\<bar> \<le> 1 \<and>
          round64 (bruit_amplitude cfg) = Fin a \<and>
          hours ! i = Fin h \<and> round64 h = Fin h \<and>
          prev ! i = Fin p \<and> round64 p = Fin p \<and>
          attendance ! i = Fin t \<and> round64 t = Fin t) \<longrightarrow>
       (\<exists>r. score ! i = Fin r \<and> 0 \<le> r \<and> r \<le> 20))"
  proof (intro allI impI conjI)
    fix i
    assume "i < length score"
    then have i: "i < length brut"
      by (simp add: score_def)
    then have nth: "score ! i = fclip 0 20 (brut ! i)"
      by (simp add: score_def)
    show "score ! i = NaN \<or> (\<exists>r. score ! i = Fin r \<and> 0 \<le> r \<and> r \<le> 20)"
      unfolding nth using rows [of "brut ! i"] by (rule conjunct1)
    show "score ! i = NaN \<longleftrightarrow> brut ! i = NaN"
      unfolding nth using rows [of "brut ! i"] by (rule conjunct2)
    assume "\<exists>wh wp wa a h p t.
          round64 (weight_hours cfg) = Fin wh \<and> \<bar>wh\<bar> \<le> 1 \<and>
          round64 (weight_prev cfg) = Fin wp \<and> \<bar>wp\<bar> \<le> 1 \<and>
          round64 (weight_attendance cfg) = Fin wa \<and> \<bar>wa\<bar> \<le> 1 \<and>
          round64 (bruit_amplitude cfg) = Fin a \<and>
          hours ! i = Fin h \<and> round64 h = Fin h \<and>
          prev ! i = Fin p \<and> round64 p = Fin p \<and>
          attendance ! i = Fin t \<and> round64 t = Fin t"
    then obtain wh wp wa am hi pi ti
      where wh: "round64 (weight_hours cfg) = Fin wh" "\<bar>wh\<bar> \<le> 1"
        and wp: "round64 (weight_prev cfg) = Fin wp" "\<bar>wp\<bar> \<le> 1"
        and wa: "round64 (weight_attendance cfg) = Fin wa" "\<bar>wa\<bar> \<le> 1"
        and am: "round64 (bruit_amplitude cfg) = Fin am"
        and hi: "hours ! i = Fin hi" "round64 hi = Fin hi"
        and pi: "prev ! i = Fin pi" "round64 pi = Fin pi"
        and ti: "attendance ! i = Fin ti" "round64 ti = Fin ti"
      by blast
    have lens: "i < length hours" "i < length prev" "i < length attendance"
      "i < length (bruit_aleatoire cfg rand data)"
      using i unfolding brut by simp_all
    then have "i < nrows data"
      by (simp add: length_bruit_aleatoire)
    from bruit_aleatoire_nth [OF this] obtain z
      where z: "bruit_aleatoire cfg rand data ! i = fmul (Fin z) (round64 (bruit_amplitude cfg))"
        "- (1 / 2) \<le> z" "z \<le> 1 / 2"
      by blast
    from noise_finite [OF am z(2,3)] obtain n where n: "fmul (Fin z) (Fin am) = Fin n"
      by blast
    from product_finite [OF hi(2) wh(2)] obtain th where th: "fmul (Fin wh) (Fin hi) = Fin th"
      by blast
    from product_finite [OF pi(2) wp(2)] obtain tp where tp: "fmul (Fin wp) (Fin pi) = Fin tp"
      by blast
    from product_finite [OF ti(2) wa(2)] obtain ta where ta: "fmul (Fin wa) (Fin ti) = Fin ta"
      by blast
    have terms: "round64 (wh * hi) = Fin th" "round64 (wp * pi) = Fin tp"
      "round64 (wa * ti) = Fin ta" "round64 (z * am) = Fin n"
      using th tp ta n by simp_all
    have "brut ! i =
        fadd (fadd (fadd (fadd (round64 (base_score cfg)) (Fin th)) (Fin tp)) (Fin ta)) (Fin n)"
      unfolding brut using lens
      by (simp add: wh(1) wp(1) wa(1) am hi(1) pi(1) ti(1) z(1) terms)
    moreover have "fadd (fadd (fadd (fadd (round64 (base_score cfg)) (Fin th)) (Fin tp)) (Fin ta))
        (Fin n) \<noteq> NaN"
      by (intro fadd_Fin_not_NaN) simp
    ultimately have "brut ! i \<noteq> NaN"
      by simp
    with rows [of "brut ! i"] show "\<exists>r. score ! i = Fin r \<and> 0 \<le> r \<and> r \<le> 20"
      unfolding nth by blast
  qed
  from h p a b s len all show ?thesis
    unfolding score_def [symmetric] by blast
qed

text \<open>
  The theorem on the first row of the two-row table under the shipped configuration:
  the predictor cells are 10, 80 and 90 and the score is a number in the interval.
\<close>

theorem final_exam_score_clamped_witness:
  "generate default_config mid_draw two_students = Inr two_students_out \<and>
   round64 (weight_hours default_config) = Fin (5404319552844595 / 9007199254740992) \<and>
   round64 (weight_prev default_config) = Fin (5404319552844595 / 36028797018963968) \<and>
   round64 (weight_attendance default_config) =
     Fin (5764607523034235 / 288230376151711744) \<and>
   round64 (bruit_amplitude default_config) = Fin (3 / 2) \<and>
   series two_students ''Hours_Studied'' = Inr [Fin 10, Fin 0] \<and> round64 10 = Fin 10 \<and>
   series two_students ''Previous_Score'' = Inr [Fin 80, Fin 0] \<and> round64 80 = Fin 80 \<and>
   series two_students ''Attendance_Rate'' = Inr [Fin 90, Fin 0] \<and> round64 90 = Fin 90 \<and>
   (\<exists>score.
      getitem two_students_out ''Final_Exam_Score'' = Inr (map FloatCell score) \<and>
      0 < length score \<and>
      (\<exists>r. score ! 0 = Fin r \<and> 0 \<le> r \<and> r \<le> 20))"
proof -
  have run: "generate default_config mid_draw two_students = Inr two_students_out"
    by (simp add: frame_ops two_students_def two_students_out_def upt_rec)
  have wh: "round64 (weight_hours default_config) = Fin (5404319552844595 / 9007199254740992)"
    by (simp add: default_config_def round64_eval)
  have wp: "round64 (weight_prev default_config) = Fin (5404319552844595 / 36028797018963968)"
    by (simp add: default_config_def round64_eval)
  have wa: "round64 (weight_attendance default_config) =
      Fin (5764607523034235 / 288230376151711744)"
    by (simp add: default_config_def round64_eval)
  have am: "round64 (bruit_amplitude default_config) = Fin (3 / 2)"
    by (simp add: default_config_def round64_eval)
  have small: "\<bar>5404319552844595 / 9007199254740992 :: real\<bar> \<le> 1"
    "\<bar>5404319552844595 / 36028797018963968 :: real\<bar> \<le> 1"
    "\<bar>5764607523034235 / 288230376151711744 :: real\<bar> \<le> 1"
    by simp_all
  have hours: "series two_students ''Hours_Studied'' = Inr [Fin 10, Fin 0]"
    by (simp add: series_def getitem_def two_students_def round64_eval)
  have prev: "series two_students ''Previous_Score'' = Inr [Fin 80, Fin 0]"
    by (simp add: series_def getitem_def two_students_def round64_eval)
  have attendance: "series two_students ''Attendance_Rate'' = Inr [Fin 90, Fin 0]"
    by (simp add: series_def getitem_def two_students_def)
  have doubles: "round64 10 = Fin 10" "round64 80 = Fin 80" "round64 90 = Fin 90"
    by (simp_all add: round64_eval)
  from final_exam_score_clamped [OF run] obtain hs ps ts brut score
    where h: "series two_students ''Hours_Studied'' = Inr hs"
      and p: "series two_students ''Previous_Score'' = Inr ps"
      and t: "series two_students ''Attendance_Rate'' = Inr ts"
      and s: "getitem two_students_out ''Final_Exam_Score'' = Inr (map FloatCell score)"
      and rows: "\<forall>i < length score.
              (score ! i = NaN \<or> (\<exists>r. score ! i = Fin r \<and> 0 \<le> r \<and> r \<le> 20)) \<and>
              (score ! i = NaN \<longleftrightarrow> brut ! i = NaN) \<and>
              ((\<exists>wh wp wa a h p t.
                  round64 (weight_hours default_config) = Fin wh \<and> \<bar>wh\<bar> \<le> 1 \<and>
                  round64 (weight_prev default_config) = Fin wp \<and> \<bar>wp\<bar> \<le> 1 \<and>
                  round64 (weight_attendance default_config) = Fin wa \<and> \<bar>wa\<bar> \<le> 1 \<and>
                  round64 (bruit_amplitude default_config) = Fin a \<and>
                  hs ! i = Fin h \<and> round64 h = Fin h \<and>
                  ps ! i = Fin p \<and> round64 p = Fin p \<and>
                  ts ! i = Fin t \<and> round64 t = Fin t) \<longrightarrow>
               (\<exists>r. score ! i = Fin r \<and> 0 \<le> r \<and> r \<le> 20))"
    by blast
  from h have "hs = [Fin 10, Fin 0]" unfolding hours by simp
  then have hs: "hs ! 0 = Fin 10" by simp
  from p have "ps = [Fin 80, Fin 0]" unfolding prev by simp
  then have ps: "ps ! 0 = Fin 80" by simp
  from t have "ts = [Fin 90, Fin 0]" unfolding attendance by simp
  then have ts: "ts ! 0 = Fin 90" by simp
  have "map FloatCell score = [FloatCell (Fin 20), FloatCell (Fin 8)]"
    using s by (simp add: getitem_def two_students_out_def)
  then have "length (map FloatCell score) = 2"
    by simp
  then have first: "0 < length score"
    by simp
  have "\<exists>wh wp wa a h p t.
      round64 (weight_hours default_config) = Fin wh \<and> \<bar>wh\<bar> \<le> 1 \<and>
      round64 (weight_prev default_config) = Fin wp \<and> \<bar>wp\<bar> \<le> 1 \<and>
      round64 (weight_attendance default_config) = Fin wa \<and> \<bar>wa\<bar> \<le> 1 \<and>
      round64 (bruit_amplitude default_config) = Fin a \<and>
      hs ! 0 = Fin h \<and> round64 h = Fin h \<and>
      ps ! 0 = Fin p \<and> round64 p = Fin p \<and>
      ts ! 0 = Fin t \<and> round64 t = Fin t"
    using wh wp wa am small hs ps ts doubles by blast
  with rows first have "\<exists>r. score ! 0 = Fin r \<and> 0 \<le> r \<and> r \<le> 20"
    by blast
  with s first have "\<exists>score.
      getitem two_students_out ''Final_Exam_Score'' = Inr (map FloatCell score) \<and>
      0 < length score \<and>
      (\<exists>r. score ! 0 = Fin r \<and> 0 \<le> r \<and> r \<le> 20)"
    by blast
  with run wh wp wa am hours prev attendance doubles show ?thesis
    by (intro conjI)
qed

text \<open>
  Against C1 as written: a table with the three required columns and an empty
  \<^verbatim>\<open>Hours_Studied\<close> cell passes validation, and its \<^verbatim>\<open>Final_Exam_Score\<close> is NaN,
  which is not in the interval.
\<close>

theorem final_exam_score_missing_cell:
  "wf_dataframe blank_cell \<and> has_required_predictors blank_cell \<and>
   generate default_config mid_draw blank_cell =
     Inr \<lparr> nrows = 1,
           cols = [(''Hours_Studied'', [FloatCell NaN]),
                   (''Previous_Score'', [IntCell 80]),
                   (''Attendance_Rate'', [IntCell 90]),
                   (''Final_Exam_Score'', [FloatCell NaN]),
                   (''Passed_Course'', [IntCell 0])] \<rparr>"
  by (simp add: frame_ops blank_cell_def wf_dataframe_def has_required_predictors_def
      required_predictors_def columns_def upt_rec)

text \<open>
  Claim C2. In every row of the output, \<^verbatim>\<open>Passed_Course\<close> is 1 exactly when the row's
  \<^verbatim>\<open>Final_Exam_Score\<close> is a number greater than or equal to \<^verbatim>\<open>note_passage\<close> (15.0 as
  shipped), it is 0 exactly when that is not so, and it has no other value.
\<close>

theorem passed_course_iff_threshold:
  assumes "wf_dataframe data" and "generate cfg rand data = Inr out"
  shows "\<exists>score passed.
           getitem out ''Final_Exam_Score'' = Inr (map FloatCell score) \<and>
           getitem out ''Passed_Course'' = Inr (map IntCell passed) \<and>
           length score = nrows out \<and> length passed = nrows out \<and>
           (\<forall>i < nrows out.
              (passed ! i = 1 \<longleftrightarrow> (\<exists>r. score ! i = Fin r \<and> note_passage cfg \<le> r)) \<and>
              (passed ! i = 0 \<longleftrightarrow> \<not> (\<exists>r. score ! i = Fin r \<and> note_passage cfg \<le> r)) \<and>
              (passed ! i = 0 \<or> passed ! i = 1))"
proof -
  from generate_Final_Exam_Score [OF assms(2)] obtain brut
    where b: "Final_Exam_Score_brut cfg rand data = Inr brut"
      and s: "getitem out ''Final_Exam_Score'' = Inr (map FloatCell (map (fclip 0 20) brut))"
      and p: "getitem out ''Passed_Course'' =
                Inr (map IntCell
                      (map (\<lambda>x. astype_int (fge x (note_passage cfg))) (map (fclip 0 20) brut)))"
    by blast
  define score where "score = map (fclip 0 20) brut"
  define passed where "passed = map (\<lambda>x. astype_int (fge x (note_passage cfg))) score"
  have n: "length brut = nrows out"
    using brut_length [OF assms(1) b] nrows_generate [OF assms(2)] by simp
  have len: "length score = nrows out" "length passed = nrows out"
    using n by (simp_all add: score_def passed_def)
  have ge: "fge (fclip 0 20 x) t \<longleftrightarrow> (\<exists>r. fclip 0 20 x = Fin r \<and> t \<le> r)" for x t
    by (cases x) auto
  have rows: "(passed ! i = 1 \<longleftrightarrow> (\<exists>r. score ! i = Fin r \<and> note_passage cfg \<le> r)) \<and>
              (passed ! i = 0 \<longleftrightarrow> \<not> (\<exists>r. score ! i = Fin r \<and> note_passage cfg \<le> r)) \<and>
              (passed ! i = 0 \<or> passed ! i = 1)" if "i < nrows out" for i
  proof -
    from that len have "passed ! i = astype_int (fge (score ! i) (note_passage cfg))"
      by (simp add: passed_def)
    moreover from that len n have "score ! i = fclip 0 20 (brut ! i)"
      by (simp add: score_def)
    ultimately show ?thesis
      by (simp add: astype_int_def ge)
  qed
  from s p len rows show ?thesis
    unfolding score_def [symmetric] passed_def [symmetric] by blast
qed

text \<open>The theorem on the two-row table: 20 passes the threshold 15, 8 does not.\<close>

theorem passed_course_iff_threshold_witness:
  "wf_dataframe two_students \<and>
   generate default_config mid_draw two_students = Inr two_students_out \<and>
   getitem two_students_out ''Final_Exam_Score'' = Inr (map FloatCell [Fin 20, Fin 8]) \<and>
   getitem two_students_out ''Passed_Course'' = Inr (map IntCell [1, 0]) \<and>
   note_passage default_config = 15 \<and>
   (\<exists>score passed.
      getitem two_students_out ''Final_Exam_Score'' = Inr (map FloatCell score) \<and>
      getitem two_students_out ''Passed_Course'' = Inr (map IntCell passed) \<and>
      length score = nrows two_students_out \<and> length passed = nrows two_students_out \<and>
      (\<forall>i < nrows two_students_out.
         (passed ! i = 1 \<longleftrightarrow> (\<exists>r. score ! i = Fin r \<and> note_passage default_config \<le> r)) \<and>
         (passed ! i = 0 \<longleftrightarrow> \<not> (\<exists>r. score ! i = Fin r \<and> note_passage default_config \<le> r)) \<and>
         (passed ! i = 0 \<or> passed ! i = 1)))"
proof -
  have wf: "wf_dataframe two_students"
    by (simp add: wf_dataframe_def two_students_def columns_def)
  have run: "generate default_config mid_draw two_students = Inr two_students_out"
    by (simp add: frame_ops two_students_def two_students_out_def upt_rec)
  have cols: "getitem two_students_out ''Final_Exam_Score'' = Inr (map FloatCell [Fin 20, Fin 8])"
    "getitem two_students_out ''Passed_Course'' = Inr (map IntCell [1, 0])"
    "note_passage default_config = 15"
    by (simp_all add: getitem_def two_students_out_def default_config_def)
  from wf run cols passed_course_iff_threshold [OF wf run] show ?thesis
    by blast
qed

text \<open>
  Claim C3, as amended. For every row \<open>i\<close> of a table on which lines 78-85 succeed, the
  score before clamping is the float64 value of the expression of lines 81-85: the
  base, the three products of a weight and the predictor value of the row, and the
  noise of the row, added from left to right, each product and each sum rounded to
  the nearest double. The noise of the row is a number between minus and plus half the
  amplitude, for every draw of the generator, when the amplitude \<open>a\<close> and its half are
  doubles. (As the claim is written, the score equal to the exact sum, it fails: the
  roundings can leave the score below the exact sum.)
\<close>

theorem raw_score_formula:
  assumes "wf_dataframe data"
    and "Final_Exam_Score_brut cfg rand data = Inr brut"
    and "round64 (bruit_amplitude cfg) = Fin a"
    and "round64 (a / 2) = Fin (a / 2)"
    and "i < nrows data"
  shows "\<exists>hours prev attendance noise.
           series data ''Hours_Studied'' = Inr hours \<and>
           series data ''Previous_Score'' = Inr prev \<and>
           series data ''Attendance_Rate'' = Inr attendance \<and>
           bruit_aleatoire cfg rand data ! i = Fin noise \<and>
           - (\<bar>a\<bar> / 2) \<le> noise \<and> noise \<le> \<bar>a\<bar> / 2 \<and>
           brut ! i =
             fadd (fadd (fadd (fadd (round64 (base_score cfg))
                                    (fmul (round64 (weight_hours cfg)) (hours ! i)))
                              (fmul (round64 (weight_prev cfg)) (prev ! i)))
                        (fmul (round64 (weight_attendance cfg)) (attendance ! i)))
                  (Fin noise)"
proof -
  from assms(2) obtain hours prev attendance
    where h: "series data ''Hours_Studied'' = Inr hours"
      and p: "series data ''Previous_Score'' = Inr prev"
      and a: "series data ''Attendance_Rate'' = Inr attendance"
      and brut: "brut = map2 fadd
                 (map2 fadd
                   (map2 fadd
                     (map (fadd (round64 (base_score cfg))) (map (fmul (round64 (weight_hours cfg))) hours))
                     (map (fmul (round64 (weight_prev cfg))) prev))
                   (map (fmul (round64 (weight_attendance cfg))) attendance))
                 (bruit_aleatoire cfg rand data)"
    unfolding brut_Inr by blast
  have len: "i < length hours" "i < length prev" "i < length attendance"
    "i < length (bruit_aleatoire cfg rand data)"
    using assms(1,5) h p a by (simp_all add: series_length length_bruit_aleatoire)
  from bruit_aleatoire_nth [OF assms(5)] obtain z
    where z: "bruit_aleatoire cfg rand data ! i = fmul (Fin z) (round64 (bruit_amplitude cfg))"
      "- (1 / 2) \<le> z" "z \<le> 1 / 2"
    by blast
  from noise_bounds [OF assms(4) z(2,3)] obtain noise
    where n: "fmul (Fin z) (Fin a) = Fin noise" "- (\<bar>a\<bar> / 2) \<le> noise" "noise \<le> \<bar>a\<bar> / 2"
    by blast
  have draw: "bruit_aleatoire cfg rand data ! i = Fin noise"
    unfolding z(1) assms(3) by (rule n(1))
  have row: "brut ! i =
             fadd (fadd (fadd (fadd (round64 (base_score cfg))
                                    (fmul (round64 (weight_hours cfg)) (hours ! i)))
                              (fmul (round64 (weight_prev cfg)) (prev ! i)))
                        (fmul (round64 (weight_attendance cfg)) (attendance ! i)))
                  (Fin noise)"
    unfolding brut draw [symmetric] using len by simp
  from h p a draw n(2,3) row show ?thesis
    by blast
qed

text \<open>
  The theorem on the second row of the two-row table, with the shipped amplitude 1.5
  and every draw 0.25: the noise is \<open>-0.375\<close> and the raw score \<open>8 - 0.375\<close>.
\<close>

theorem raw_score_formula_witness:
  "wf_dataframe two_students \<and>
   Final_Exam_Score_brut default_config quarter_draw two_students =
     Inr [Fin (7719451236289741 / 281474976710656), Fin (61 / 8)] \<and>
   round64 (bruit_amplitude default_config) = Fin (3 / 2) \<and>
   round64 ((3 / 2) / 2) = Fin ((3 / 2) / 2) \<and>
   1 < nrows two_students \<and>
   (\<exists>hours prev attendance noise.
      series two_students ''Hours_Studied'' = Inr hours \<and>
      series two_students ''Previous_Score'' = Inr prev \<and>
      series two_students ''Attendance_Rate'' = Inr attendance \<and>
      bruit_aleatoire default_config quarter_draw two_students ! 1 = Fin noise \<and>
      - (\<bar>3 / 2\<bar> / 2) \<le> noise \<and> noise \<le> \<bar>3 / 2\<bar> / 2 \<and>
      [Fin (7719451236289741 / 281474976710656), Fin (61 / 8)] ! 1 =
        fadd (fadd (fadd (fadd (round64 (base_score default_config))
                               (fmul (round64 (weight_hours default_config)) (hours ! 1)))
                         (fmul (round64 (weight_prev default_config)) (prev ! 1)))
                   (fmul (round64 (weight_attendance default_config)) (attendance ! 1)))
             (Fin noise))"
proof -
  have wf: "wf_dataframe two_students"
    by (simp add: wf_dataframe_def two_students_def columns_def)
  have brut: "Final_Exam_Score_brut default_config quarter_draw two_students =
      Inr [Fin (7719451236289741 / 281474976710656), Fin (61 / 8)]"
    by (simp add: frame_ops quarter_draw_def two_students_def upt_rec)
  have amplitude: "round64 (bruit_amplitude default_config) = Fin (3 / 2)"
    by (simp add: default_config_def round64_eval)
  have half: "round64 ((3 / 2) / 2) = Fin ((3 / 2) / 2)"
    by (simp add: round64_eval)
  have row: "1 < nrows two_students"
    by (simp add: two_students_def)
  from raw_score_formula [OF wf brut amplitude half row] wf brut amplitude half row
  show ?thesis by (intro conjI)
qed

text \<open>
  Against C3 as written: under the shipped configuration, with every draw 0.5 and so
  the noise 0, the row with 9 hours, previous score 0 and attendance 80 has the exact
  sum 8 + 0.6 * 9 + 0.15 * 0 + 0.02 * 80 + 0 = 15, and the score the script computes is
  \<open>15 - 2\<^sup>-\<^sup>4\<^sup>9\<close>, which Python prints as 14.999999999999998: the student fails where
  the exact sum reaches the threshold.
\<close>

theorem raw_score_below_exact_sum:
  "wf_dataframe nine_hours \<and> has_required_predictors nine_hours \<and>
   series nine_hours ''Hours_Studied'' = Inr [Fin 9] \<and>
   series nine_hours ''Previous_Score'' = Inr [Fin 0] \<and>
   series nine_hours ''Attendance_Rate'' = Inr [Fin 80] \<and>
   bruit_aleatoire default_config mid_draw nine_hours = [Fin 0] \<and>
   base_score default_config + weight_hours default_config * 9 +
     weight_prev default_config * 0 + weight_attendance default_config * 80 + 0 = 15 \<and>
   Final_Exam_Score_brut default_config mid_draw nine_hours =
     Inr [Fin (8444249301319679 / 562949953421312)] \<and>
   (8444249301319679 / 562949953421312 :: real) = 15 - 1 / 2 ^ 49 \<and>
   generate default_config mid_draw nine_hours =
     Inr \<lparr> nrows = 1,
           cols = [(''Hours_Studied'', [IntCell 9]),
                   (''Previous_Score'', [IntCell 0]),
                   (''Attendance_Rate'', [IntCell 80]),
                   (''Final_Exam_Score'', [FloatCell (Fin (8444249301319679 / 562949953421312))]),
                   (''Passed_Course'', [IntCell 0])] \<rparr>"
  by (simp add: frame_ops nine_hours_def wf_dataframe_def has_required_predictors_def
      required_predictors_def columns_def upt_rec)

text \<open>
  Claim C4, as amended. For every well-formed table on which the computation succeeds,
  the output has as many rows as the input and one cell per row in every column; every
  input column whose name is not \<^verbatim>\<open>Final_Exam_Score_brut\<close>, \<^verbatim>\<open>Final_Exam_Score\<close> or
  \<^verbatim>\<open>Passed_Course\<close> is in the output with the same cells in the same row order, and
  these columns stand in the same order as in the input. (As the claim is written, for
  each original column, it fails: an input column with one of the three names is
  overwritten or dropped.)
\<close>

theorem rows_and_columns_preserved:
  assumes "wf_dataframe data" and "generate cfg rand data = Inr out"
  shows "nrows out = nrows data \<and> wf_dataframe out \<and>
         (\<forall>col. col \<notin> {''Final_Exam_Score_brut'', ''Final_Exam_Score'', ''Passed_Course''} \<longrightarrow>
                getitem out col = getitem data col) \<and>
         filter (\<lambda>col. col \<notin> {''Final_Exam_Score_brut'', ''Final_Exam_Score'', ''Passed_Course''})
           (columns out) =
         filter (\<lambda>col. col \<notin> {''Final_Exam_Score_brut'', ''Final_Exam_Score'', ''Passed_Course''})
           (columns data)"
proof -
  from assms(2) obtain brut where b: "Final_Exam_Score_brut cfg rand data = Inr brut"
    and out: "out = drop_column
                (setitem
                  (setitem (setitem data ''Final_Exam_Score_brut'' (map FloatCell brut))
                     ''Final_Exam_Score'' (map FloatCell (map (fclip 0.0 20.0) brut)))
                  ''Passed_Course''
                  (map IntCell
                    (map (\<lambda>x. astype_int (fge x (note_passage cfg)))
                      (map (fclip 0.0 20.0) brut))))
                ''Final_Exam_Score_brut''"
    unfolding generate_Inr by blast
  have n: "length brut = nrows data"
    using assms(1) b by (rule brut_length)
  have rows: "nrows out = nrows data"
    using assms(2) by (rule nrows_generate)
  have wf: "wf_dataframe out"
    unfolding out using assms(1) n
    by (intro wf_drop_column wf_setitem) (simp_all add: nrows_setitem)
  have others: "getitem out col = getitem data col"
    if "col \<notin> {''Final_Exam_Score_brut'', ''Final_Exam_Score'', ''Passed_Course''}" for col
    unfolding out using that
    by (simp add: getitem_drop_other getitem_setitem_other del: map_map)
  have order: "filter (\<lambda>col. col \<notin> {''Final_Exam_Score_brut'', ''Final_Exam_Score'', ''Passed_Course''})
           (columns out) =
         filter (\<lambda>col. col \<notin> {''Final_Exam_Score_brut'', ''Final_Exam_Score'', ''Passed_Course''})
           (columns data)"
    unfolding out
    by (simp add: columns_drop_column filter_removeAll_excluded filter_columns_setitem
        del: map_map)
  from rows wf others order show ?thesis by blast
qed

text \<open>The theorem on the two-row table and its extra text column \<^verbatim>\<open>Name\<close>.\<close>

theorem rows_and_columns_preserved_witness:
  "wf_dataframe two_students \<and>
   generate default_config mid_draw two_students = Inr two_students_out \<and>
   nrows two_students_out = nrows two_students \<and> wf_dataframe two_students_out \<and>
   ''Name'' \<notin> {''Final_Exam_Score_brut'', ''Final_Exam_Score'', ''Passed_Course''} \<and>
   getitem two_students_out ''Name'' = getitem two_students ''Name'' \<and>
   getitem two_students ''Name'' = Inr [StrCell ''Ada'', StrCell ''Bob'']"
proof -
  have wf: "wf_dataframe two_students"
    by (simp add: wf_dataframe_def two_students_def columns_def)
  have run: "generate default_config mid_draw two_students = Inr two_students_out"
    by (simp add: frame_ops two_students_def two_students_out_def upt_rec)
  have name: "''Name'' \<notin> {''Final_Exam_Score_brut'', ''Final_Exam_Score'', ''Passed_Course''}"
    by simp
  have cells: "getitem two_students ''Name'' = Inr [StrCell ''Ada'', StrCell ''Bob'']"
    by (simp add: getitem_def two_students_def)
  note preserved = rows_and_columns_preserved [OF wf run]
  from preserved have rows: "nrows two_students_out = nrows two_students"
    by (rule conjunct1)
  from preserved have wf_out: "wf_dataframe two_students_out"
    by (elim conjE)
  from preserved have
    "\<forall>col. col \<notin> {''Final_Exam_Score_brut'', ''Final_Exam_Score'', ''Passed_Course''} \<longrightarrow>
       getitem two_students_out col = getitem two_students col"
    by (elim conjE)
  then have "''Name'' \<notin> {''Final_Exam_Score_brut'', ''Final_Exam_Score'', ''Passed_Course''} \<longrightarrow>
       getitem two_students_out ''Name'' = getitem two_students ''Name''"
    by (rule spec)
  then have kept: "getitem two_students_out ''Name'' = getitem two_students ''Name''"
    using name by (rule mp)
  from wf run rows wf_out name kept cells show ?thesis
    by (intro conjI)
qed

text \<open>
  Against C4 as written: an input table that already has a column \<^verbatim>\<open>Final_Exam_Score\<close>
  passes validation, and the value 3 of that column in row 0 is 20.0 in the output.
\<close>

theorem original_column_overwritten:
  "wf_dataframe graded_before \<and> has_required_predictors graded_before \<and>
   getitem graded_before ''Final_Exam_Score'' = Inr [IntCell 3] \<and>
   generate default_config mid_draw graded_before =
     Inr \<lparr> nrows = 1,
           cols = [(''Final_Exam_Score'', [FloatCell (Fin 20)]),
                   (''Hours_Studied'', [IntCell 10]),
                   (''Previous_Score'', [IntCell 80]),
                   (''Attendance_Rate'', [IntCell 90]),
                   (''Passed_Course'', [IntCell 1])] \<rparr>"
  by (simp add: frame_ops graded_before_def wf_dataframe_def has_required_predictors_def
      required_predictors_def columns_def upt_rec)

text \<open>
  Claim C5, as amended. An error ends the run where it occurs. A missing input file
  ends it with \<open>NotFoundError\<close>, a failed \<^verbatim>\<open>read_csv\<close> with \<open>ParseError\<close>, a missing
  required column with \<open>SchemaError\<close>: the later steps are not run, whatever they would
  do, and the file system is as it was. A failure of \<^verbatim>\<open>to_csv\<close>, called on the finished
  table, ends the run with \<open>WriteError\<close>: the file system is as it was when \<^verbatim>\<open>to_csv\<close>
  failed before opening the destination, and the destination holds what \<^verbatim>\<open>to_csv\<close> had
  written when it failed later. Conversely, a run that ends with an error other than
  \<open>WriteError\<close> has left the file system as it was, and one that ends with \<open>WriteError\<close>
  is a run of the last kind: only the destination path can differ from before. (As
  the claim is written, no partial output in any failed run, it fails: lines 115-117
  report the error and do not remove the file.)
\<close>

theorem error_ends_run:
  "(fs (input_filename cfg) = None \<longrightarrow> main cfg lib rand fs = (Inl NotFoundError, fs)) \<and>
   (fs (input_filename cfg) = Some content \<and>
    read_csv lib content (input_delimiter cfg) = None \<longrightarrow>
      main cfg lib rand fs = (Inl ParseError, fs)) \<and>
   (fs (input_filename cfg) = Some content \<and>
    read_csv lib content (input_delimiter cfg) = Some data \<and>
    \<not> has_required_predictors data \<longrightarrow>
      main cfg lib rand fs = (Inl (SchemaError (missing data)), fs)) \<and>
   (fs (input_filename cfg) = Some content \<and>
    read_csv lib content (input_delimiter cfg) = Some data \<and>
    has_required_predictors data \<and> generate cfg rand data = Inr out \<and>
    to_csv lib \<lparr> frame = out, path_or_buf = output_filename cfg,
                   sep = output_delimiter cfg, index = False \<rparr> = Failed_unopened \<longrightarrow>
      main cfg lib rand fs = (Inl WriteError, fs)) \<and>
   (fs (input_filename cfg) = Some content \<and>
    read_csv lib content (input_delimiter cfg) = Some data \<and>
    has_required_predictors data \<and> generate cfg rand data = Inr out \<and>
    to_csv lib \<lparr> frame = out, path_or_buf = output_filename cfg,
                   sep = output_delimiter cfg, index = False \<rparr> = Failed_partial written \<longrightarrow>
      main cfg lib rand fs = (Inl WriteError, fs(output_filename cfg \<mapsto> written))) \<and>
   (main cfg lib rand fs = (Inl e, fs') \<longrightarrow>
      (e \<noteq> WriteError \<longrightarrow> fs' = fs) \<and>
      (\<forall>path. path \<noteq> output_filename cfg \<longrightarrow> fs' path = fs path) \<and>
      (e = WriteError \<longrightarrow>
         (\<exists>content' data' out'.
            fs (input_filename cfg) = Some content' \<and>
            read_csv lib content' (input_delimiter cfg) = Some data' \<and>
            has_required_predictors data' \<and> generate cfg rand data' = Inr out' \<and>
            (to_csv lib \<lparr> frame = out', path_or_buf = output_filename cfg,
                           sep = output_delimiter cfg, index = False \<rparr> = Failed_unopened \<and>
             fs' = fs \<or>
             (\<exists>written'.
                to_csv lib \<lparr> frame = out', path_or_buf = output_filename cfg,
                               sep = output_delimiter cfg, index = False \<rparr> =
                  Failed_partial written' \<and>
                fs' = fs(output_filename cfg \<mapsto> written'))))))"
proof (intro conjI impI)
  assume "fs (input_filename cfg) = None"
  then show "main cfg lib rand fs = (Inl NotFoundError, fs)"
    by (simp add: main_def)
next
  assume "fs (input_filename cfg) = Some content \<and>
    read_csv lib content (input_delimiter cfg) = None"
  then show "main cfg lib rand fs = (Inl ParseError, fs)"
    by (simp add: main_def)
next
  assume "fs (input_filename cfg) = Some content \<and>
    read_csv lib content (input_delimiter cfg) = Some data \<and>
    \<not> has_required_predictors data"
  then show "main cfg lib rand fs = (Inl (SchemaError (missing data)), fs)"
    by (simp add: main_def)
next
  assume "fs (input_filename cfg) = Some content \<and>
    read_csv lib content (input_delimiter cfg) = Some data \<and>
    has_required_predictors data \<and> generate cfg rand data = Inr out \<and>
    to_csv lib \<lparr> frame = out, path_or_buf = output_filename cfg,
                   sep = output_delimiter cfg, index = False \<rparr> = Failed_unopened"
  then show "main cfg lib rand fs = (Inl WriteError, fs)"
    by (simp add: main_def export_def)
next
  assume "fs (input_filename cfg) = Some content \<and>
    read_csv lib content (input_delimiter cfg) = Some data \<and>
    has_required_predictors data \<and> generate cfg rand data = Inr out \<and>
    to_csv lib \<lparr> frame = out, path_or_buf = output_filename cfg,
                   sep = output_delimiter cfg, index = False \<rparr> = Failed_partial written"
  then show "main cfg lib rand fs = (Inl WriteError, fs(output_filename cfg \<mapsto> written))"
    by (simp add: main_def export_def)
next
  assume run: "main cfg lib rand fs = (Inl e, fs')"
  from main_failed_cases [OF run] show "fs' = fs" if "e \<noteq> WriteError"
    using that by blast
  from main_failed_cases [OF run]
  show "\<forall>path. path \<noteq> output_filename cfg \<longrightarrow> fs' path = fs path"
    by auto
  from main_failed_cases [OF run]
  show "\<exists>content' data' out'.
            fs (input_filename cfg) = Some content' \<and>
            read_csv lib content' (input_delimiter cfg) = Some data' \<and>
            has_required_predictors data' \<and> generate cfg rand data' = Inr out' \<and>
            (to_csv lib \<lparr> frame = out', path_or_buf = output_filename cfg,
                           sep = output_delimiter cfg, index = False \<rparr> = Failed_unopened \<and>
             fs' = fs \<or>
             (\<exists>written'.
                to_csv lib \<lparr> frame = out', path_or_buf = output_filename cfg,
                               sep = output_delimiter cfg, index = False \<rparr> =
                  Failed_partial written' \<and>
                fs' = fs(output_filename cfg \<mapsto> written')))" if "e = WriteError"
    using that by blast
qed

text \<open>
  The theorem on a run whose input is there and valid and whose \<^verbatim>\<open>to_csv\<close> fails after
  writing part of the header.
\<close>

theorem error_ends_run_witness:
  "sample_files (input_filename default_config) = Some students_csv \<and>
   read_csv disk_full_library students_csv (input_delimiter default_config) =
     Some two_students \<and>
   has_required_predictors two_students \<and>
   generate default_config mid_draw two_students = Inr two_students_out \<and>
   to_csv disk_full_library
     \<lparr> frame = two_students_out, path_or_buf = output_filename default_config,
       sep = output_delimiter default_config, index = False \<rparr> =
     Failed_partial ''Name,Hours_St'' \<and>
   main default_config disk_full_library mid_draw sample_files =
     (Inl WriteError, sample_files(output_filename default_config \<mapsto> ''Name,Hours_St''))"
proof -
  have present: "sample_files (input_filename default_config) = Some students_csv"
    by (simp add: sample_files_def default_config_def)
  have parsed: "read_csv disk_full_library students_csv (input_delimiter default_config) =
      Some two_students"
    by (simp add: disk_full_library_def sample_library_def default_config_def)
  have valid: "has_required_predictors two_students"
    by (simp add: has_required_predictors_def required_predictors_def columns_def
        two_students_def)
  have gen: "generate default_config mid_draw two_students = Inr two_students_out"
    by (simp add: frame_ops two_students_def two_students_out_def upt_rec)
  have failed: "to_csv disk_full_library
     \<lparr> frame = two_students_out, path_or_buf = output_filename default_config,
       sep = output_delimiter default_config, index = False \<rparr> =
     Failed_partial ''Name,Hours_St''"
    by (simp add: disk_full_library_def)
  note cases = error_ends_run [where fs = sample_files and cfg = default_config
      and lib = disk_full_library and rand = mid_draw and content = students_csv
      and data = two_students and out = two_students_out and written = "''Name,Hours_St''"]
  note partial = cases [THEN conjunct2, THEN conjunct2, THEN conjunct2, THEN conjunct2,
      THEN conjunct1, THEN mp]
  have "main default_config disk_full_library mid_draw sample_files =
      (Inl WriteError, sample_files(output_filename default_config \<mapsto> ''Name,Hours_St''))"
    by (rule partial) (intro conjI present parsed valid gen failed)
  with present parsed valid gen failed show ?thesis
    by (intro conjI)
qed

text \<open>
  Against C5 as written: the input is there and valid, \<^verbatim>\<open>to_csv\<close> fails after it has
  opened the destination and written 13 characters; the run ends with \<open>WriteError\<close> and
  the destination, which did not exist before, holds those 13 characters.
\<close>

theorem partial_output_left:
  "sample_files (output_filename default_config) = None \<and>
   fst (main default_config disk_full_library mid_draw sample_files) = Inl WriteError \<and>
   snd (main default_config disk_full_library mid_draw sample_files)
     (output_filename default_config) = Some ''Name,Hours_St''"
proof -
  have gen: "generate default_config mid_draw two_students = Inr two_students_out"
    by (simp add: frame_ops two_students_def two_students_out_def upt_rec)
  have valid: "has_required_predictors two_students"
    by (simp add: has_required_predictors_def required_predictors_def columns_def
        two_students_def)
  show ?thesis
    using gen valid
    by (simp add: main_def export_def disk_full_library_def sample_library_def
        sample_files_def default_config_def)
qed

text \<open>
  Claim C6. When the file is there and parses to a table that lacks at least one of
  \<^verbatim>\<open>Hours_Studied\<close>, \<^verbatim>\<open>Previous_Score\<close> and \<^verbatim>\<open>Attendance_Rate\<close>, the run ends with a
  \<open>SchemaError\<close> whose list holds the required names that are absent from the table, each
  once, and no others; the file system is as it was, so no output file is written.
\<close>

theorem schema_gate:
  assumes "fs (input_filename cfg) = Some content"
    and "read_csv lib content (input_delimiter cfg) = Some data"
    and "col \<in> set required_predictors"
    and "col \<notin> set (columns data)"
  shows "\<exists>names.
           main cfg lib rand fs = (Inl (SchemaError names), fs) \<and>
           col \<in> set names \<and> distinct names \<and>
           set names = {c. c \<in> set required_predictors \<and> c \<notin> set (columns data)}"
proof -
  have "\<not> has_required_predictors data"
    using assms(3,4) by (auto simp add: has_required_predictors_def list_all_iff)
  then have "main cfg lib rand fs = (Inl (SchemaError (missing data)), fs)"
    using assms(1,2) by (simp add: main_def)
  moreover have "set (missing data) = {c. c \<in> set required_predictors \<and> c \<notin> set (columns data)}"
    by (auto simp add: missing_def)
  moreover have "distinct (missing data)"
    by (simp add: missing_def required_predictors_def)
  moreover have "col \<in> set (missing data)"
    using assms(3,4) by (simp add: missing_def)
  ultimately show ?thesis by blast
qed

text \<open>The theorem on a file without the column \<^verbatim>\<open>Attendance_Rate\<close>.\<close>

theorem schema_gate_witness:
  "incomplete_files (input_filename default_config) = Some no_attendance_csv \<and>
   read_csv sample_library no_attendance_csv (input_delimiter default_config) =
     Some no_attendance \<and>
   ''Attendance_Rate'' \<in> set required_predictors \<and>
   ''Attendance_Rate'' \<notin> set (columns no_attendance) \<and>
   main default_config sample_library mid_draw incomplete_files =
     (Inl (SchemaError [''Attendance_Rate'']), incomplete_files) \<and>
   (\<exists>names.
      main default_config sample_library mid_draw incomplete_files =
        (Inl (SchemaError names), incomplete_files) \<and>
      ''Attendance_Rate'' \<in> set names \<and> distinct names \<and>
      set names = {c. c \<in> set required_predictors \<and> c \<notin> set (columns no_attendance)})"
proof -
  have present: "incomplete_files (input_filename default_config) = Some no_attendance_csv"
    by (simp add: incomplete_files_def default_config_def)
  have parsed: "read_csv sample_library no_attendance_csv (input_delimiter default_config) =
      Some no_attendance"
    by (simp add: sample_library_def default_config_def no_attendance_csv_def students_csv_def)
  have required: "''Attendance_Rate'' \<in> set required_predictors"
    by (simp add: required_predictors_def)
  have absent: "''Attendance_Rate'' \<notin> set (columns no_attendance)"
    by (simp add: columns_def no_attendance_def)
  have run: "main default_config sample_library mid_draw incomplete_files =
      (Inl (SchemaError [''Attendance_Rate'']), incomplete_files)"
    using present parsed by (simp add: run_ops no_attendance_def)
  note gate =
    schema_gate [where fs = incomplete_files and cfg = default_config and lib = sample_library
      and rand = mid_draw, OF present parsed required absent]
  from present parsed required absent run gate show ?thesis
    by (intro conjI)
qed

text \<open>
  Claim C7. When there is no file at the input path, the run ends with \<open>NotFoundError\<close>
  whatever the library and the generator would do, and the file system is as it was:
  nothing is read, computed or written.
\<close>

theorem missing_file_gate:
  assumes "fs (input_filename cfg) = None"
  shows "main cfg lib rand fs = (Inl NotFoundError, fs)"
  using assms by (simp add: main_def)

text \<open>The theorem on the empty file system.\<close>

theorem missing_file_gate_witness:
  "no_files (input_filename default_config) = None \<and>
   main default_config sample_library mid_draw no_files = (Inl NotFoundError, no_files)"
proof -
  have absent: "no_files (input_filename default_config) = None"
    by (simp add: no_files_def)
  from absent missing_file_gate [where fs = no_files, OF absent] show ?thesis
    by (intro conjI)
qed

text \<open>
  Claim C8, as amended. For every validated table that has no column named
  \<^verbatim>\<open>Final_Exam_Score_brut\<close>, \<^verbatim>\<open>Final_Exam_Score\<close> or \<^verbatim>\<open>Passed_Course\<close> and on which the
  computation succeeds, the frame handed to \<^verbatim>\<open>to_csv\<close> holds every input column, extra
  ones included, in the input order and with the input cells, followed by exactly the
  two columns \<^verbatim>\<open>Final_Exam_Score\<close> and \<^verbatim>\<open>Passed_Course\<close>; the raw score column is not in
  it, and \<^verbatim>\<open>to_csv\<close> is called with \<^verbatim>\<open>index=False\<close>. (As the claim is written, for every
  original column, it fails: an input column named like the temporary column is
  dropped with it.)
\<close>

theorem exported_columns:
  assumes "fs (input_filename cfg) = Some content"
    and "read_csv lib content (input_delimiter cfg) = Some data"
    and "has_required_predictors data"
    and "generate cfg rand data = Inr out"
    and "''Final_Exam_Score_brut'' \<notin> set (columns data)"
    and "''Final_Exam_Score'' \<notin> set (columns data)"
    and "''Passed_Course'' \<notin> set (columns data)"
  shows "main cfg lib rand fs =
           export lib fs
             \<lparr> frame = out, path_or_buf = output_filename cfg,
               sep = output_delimiter cfg, index = False \<rparr> \<and>
         (\<exists>score passed.
            cols out =
              cols data @
                [(''Final_Exam_Score'', map FloatCell score),
                 (''Passed_Course'', map IntCell passed)]) \<and>
         columns out = columns data @ [''Final_Exam_Score'', ''Passed_Course''] \<and>
         ''Final_Exam_Score_brut'' \<notin> set (columns out)"
proof -
  have call: "main cfg lib rand fs =
           export lib fs
             \<lparr> frame = out, path_or_buf = output_filename cfg,
               sep = output_delimiter cfg, index = False \<rparr>"
    using assms(1-4) by (simp add: main_def)
  from generate_fresh_columns [OF assms(4-7)] obtain brut
    where out: "cols out =
             cols data @
               [(''Final_Exam_Score'', map FloatCell (map (fclip 0 20) brut)),
                (''Passed_Course'',
                   map IntCell
                     (map (\<lambda>x. astype_int (fge x (note_passage cfg)))
                       (map (fclip 0 20) brut)))]"
    by blast
  then have both: "\<exists>score passed.
            cols out =
              cols data @
                [(''Final_Exam_Score'', map FloatCell score),
                 (''Passed_Course'', map IntCell passed)]"
    by blast
  have names: "columns out = columns data @ [''Final_Exam_Score'', ''Passed_Course'']"
    using out by (simp add: columns_def)
  have "''Final_Exam_Score_brut'' \<notin> set (columns out)"
    unfolding names using assms(5) by simp
  with call both names show ?thesis
    by (intro conjI)
qed

text \<open>The theorem on the sample file, whose table has the extra column \<^verbatim>\<open>Name\<close>.\<close>

theorem exported_columns_witness:
  "sample_files (input_filename default_config) = Some students_csv \<and>
   read_csv sample_library students_csv (input_delimiter default_config) = Some two_students \<and>
   has_required_predictors two_students \<and>
   generate default_config mid_draw two_students = Inr two_students_out \<and>
   ''Final_Exam_Score_brut'' \<notin> set (columns two_students) \<and>
   ''Final_Exam_Score'' \<notin> set (columns two_students) \<and>
   ''Passed_Course'' \<notin> set (columns two_students) \<and>
   main default_config sample_library mid_draw sample_files =
     export sample_library sample_files
       \<lparr> frame = two_students_out, path_or_buf = output_filename default_config,
         sep = output_delimiter default_config, index = False \<rparr> \<and>
   columns two_students_out =
     columns two_students @ [''Final_Exam_Score'', ''Passed_Course'']"
proof -
  have present: "sample_files (input_filename default_config) = Some students_csv"
    by (simp add: sample_files_def default_config_def)
  have parsed: "read_csv sample_library students_csv (input_delimiter default_config) =
      Some two_students"
    by (simp add: sample_library_def default_config_def)
  have valid: "has_required_predictors two_students"
    by (simp add: has_required_predictors_def required_predictors_def columns_def
        two_students_def)
  have run: "generate default_config mid_draw two_students = Inr two_students_out"
    by (simp add: frame_ops two_students_def two_students_out_def upt_rec)
  have fresh: "''Final_Exam_Score_brut'' \<notin> set (columns two_students)"
    "''Final_Exam_Score'' \<notin> set (columns two_students)"
    "''Passed_Course'' \<notin> set (columns two_students)"
    by (simp_all add: columns_def two_students_def)
  note exported =
    exported_columns [where fs = sample_files and cfg = default_config and lib = sample_library,
      OF present parsed valid run fresh]
  from exported have call: "main default_config sample_library mid_draw sample_files =
     export sample_library sample_files
       \<lparr> frame = two_students_out, path_or_buf = output_filename default_config,
         sep = output_delimiter default_config, index = False \<rparr>"
    by (rule conjunct1)
  from exported have names: "columns two_students_out =
     columns two_students @ [''Final_Exam_Score'', ''Passed_Course'']"
    by (elim conjE)
  from present parsed valid run fresh call names show ?thesis
    by (intro conjI)
qed

text \<open>
  Against C8 as written: an input table with an extra column named
  \<^verbatim>\<open>Final_Exam_Score_brut\<close> passes validation; line 81 overwrites that column and
  line 97 drops it, so the output does not contain this original column.
\<close>

theorem original_column_dropped:
  "wf_dataframe with_draft_column \<and> has_required_predictors with_draft_column \<and>
   getitem with_draft_column ''Final_Exam_Score_brut'' = Inr [StrCell ''draft''] \<and>
   generate default_config mid_draw with_draft_column =
     Inr \<lparr> nrows = 1,
           cols = [(''Hours_Studied'', [IntCell 0]),
                   (''Previous_Score'', [IntCell 0]),
                   (''Attendance_Rate'', [IntCell 0]),
                   (''Final_Exam_Score'', [FloatCell (Fin 8)]),
                   (''Passed_Course'', [IntCell 0])] \<rparr>"
  by (simp add: frame_ops with_draft_column_def wf_dataframe_def has_required_predictors_def
      required_predictors_def columns_def upt_rec)

text \<open>
  Claim C9. When the noise amplitude is 0, the result does not depend on the generator:
  for any two sequences of draws, the same table gives the same output table, and the
  same files and library give the same end of the run and the same files afterwards.
\<close>

theorem zero_amplitude_deterministic:
  assumes "bruit_amplitude cfg = 0"
  shows "generate cfg rand data = generate cfg rand' data \<and>
         main cfg lib rand fs = main cfg lib rand' fs"
proof -
  have noise: "bruit_aleatoire cfg rand data = bruit_aleatoire cfg rand' data" for data
    using assms by (simp add: bruit_aleatoire_zero)
  have raw: "Final_Exam_Score_brut cfg rand data = Final_Exam_Score_brut cfg rand' data"
    for data
    unfolding Final_Exam_Score_brut_def noise ..
  have table: "generate cfg rand data = generate cfg rand' data" for data
    unfolding generate_def raw ..
  have "main cfg lib rand fs = main cfg lib rand' fs"
    unfolding main_def table ..
  with table show ?thesis
    by (intro conjI)
qed

text \<open>
  The theorem on the sample file with the shipped configuration but amplitude 0, for the
  draws 0.5 and 0.25.
\<close>

theorem zero_amplitude_deterministic_witness:
  "bruit_amplitude no_noise_config = 0 \<and>
   generate no_noise_config mid_draw two_students =
     generate no_noise_config quarter_draw two_students \<and>
   main no_noise_config sample_library mid_draw sample_files =
     main no_noise_config sample_library quarter_draw sample_files"
proof -
  have zero: "bruit_amplitude no_noise_config = 0"
    by (simp add: no_noise_config_def)
  from zero zero_amplitude_deterministic [OF zero] show ?thesis
    by (intro conjI) blast+
qed




subsection \<open>Further properties\<close>

text \<open>
  Property X1. The two scenarios of the specification, as the rows of one table, with the noise
  switched off: the raw scores are the double nearest to 27.8 and 8.0, the final scores
  20.0 and 8.0, and the first student passes while the second does not.
\<close>

theorem scenario_rows:
  "Final_Exam_Score_brut no_noise_config quarter_draw two_students =
     Inr [Fin (7825004352556237 / 281474976710656), Fin 8] \<and>
   round64 27.8 = Fin (7825004352556237 / 281474976710656) \<and>
   generate no_noise_config quarter_draw two_students = Inr two_students_out"
  by (simp add: frame_ops no_noise_config_def quarter_draw_def two_students_def
      two_students_out_def upt_rec)

text \<open>
  Property X2. A text cell in a predictor column of a validated table makes the arithmetic of
  lines 81-85 raise \<open>TypeError\<close>. Nothing catches it: the run ends there and the file
  system is as it was.
\<close>

theorem text_predictor_uncaught:
  assumes "fs (input_filename cfg) = Some content"
    and "read_csv lib content (input_delimiter cfg) = Some data"
    and "has_required_predictors data"
    and "col \<in> set required_predictors"
    and "getitem data col = Inr cs"
    and "StrCell s \<in> set cs"
  shows "main cfg lib rand fs = (Inl TypeError, fs)"
proof -
  have "series data col = Inl TypeError"
    using assms(5,6) by (simp add: series_def floats_of_StrCell)
  with assms(3,4) have "Final_Exam_Score_brut cfg rand data = Inl TypeError"
    by (rule brut_TypeError)
  then have "generate cfg rand data = Inl TypeError"
    by (simp add: generate_Inl)
  with assms(1-3) show ?thesis
    by (simp add: main_def)
qed

text \<open>The theorem on a table whose \<^verbatim>\<open>Hours_Studied\<close> cell is the text \<open>ten\<close>.\<close>

theorem text_predictor_uncaught_witness:
  "[''mockaroo_predicteurs.csv'' \<mapsto> ''Hours_Studied,Previous_Score,Attendance_Rate'']
     (input_filename default_config) = Some ''Hours_Studied,Previous_Score,Attendance_Rate'' \<and>
   read_csv (sample_library\<lparr>read_csv := (\<lambda>content delimiter. Some text_cell)\<rparr>)
     ''Hours_Studied,Previous_Score,Attendance_Rate'' (input_delimiter default_config) =
     Some text_cell \<and>
   has_required_predictors text_cell \<and>
   ''Hours_Studied'' \<in> set required_predictors \<and>
   getitem text_cell ''Hours_Studied'' = Inr [StrCell ''ten''] \<and>
   StrCell ''ten'' \<in> set [StrCell ''ten''] \<and>
   main default_config (sample_library\<lparr>read_csv := (\<lambda>content delimiter. Some text_cell)\<rparr>)
     mid_draw [''mockaroo_predicteurs.csv'' \<mapsto> ''Hours_Studied,Previous_Score,Attendance_Rate''] =
     (Inl TypeError,
      [''mockaroo_predicteurs.csv'' \<mapsto> ''Hours_Studied,Previous_Score,Attendance_Rate''])"
proof -
  let ?fs = "[''mockaroo_predicteurs.csv'' \<mapsto> ''Hours_Studied,Previous_Score,Attendance_Rate'']"
  let ?lib = "sample_library\<lparr>read_csv := (\<lambda>content delimiter. Some text_cell)\<rparr>"
  have present: "?fs (input_filename default_config) =
      Some ''Hours_Studied,Previous_Score,Attendance_Rate''"
    by (simp add: default_config_def)
  have parsed: "read_csv ?lib ''Hours_Studied,Previous_Score,Attendance_Rate''
      (input_delimiter default_config) = Some text_cell"
    by simp
  have valid: "has_required_predictors text_cell"
    by (simp add: has_required_predictors_def required_predictors_def columns_def
        text_cell_def)
  have required: "''Hours_Studied'' \<in> set required_predictors"
    by (simp add: required_predictors_def)
  have cells: "getitem text_cell ''Hours_Studied'' = Inr [StrCell ''ten'']"
    by (simp add: getitem_def text_cell_def)
  have member: "StrCell ''ten'' \<in> set [StrCell ''ten'']"
    by simp
  note uncaught =
    text_predictor_uncaught [where fs = ?fs and cfg = default_config and lib = ?lib
      and rand = mid_draw, OF present parsed valid required cells member]
  from present parsed valid required cells member uncaught show ?thesis
    by (intro conjI)
qed

text \<open>
  Property X3. A run that ends without an error has loaded a table with the required columns,
  computed the target columns and handed the result to \<^verbatim>\<open>to_csv\<close>, which wrote its
  text; afterwards the file system differs from before at the output path only, where
  it holds that text.
\<close>

theorem successful_run_files:
  assumes "main cfg lib rand fs = (Inr (), fs')"
  shows "\<exists>content data out text.
           fs (input_filename cfg) = Some content \<and>
           read_csv lib content (input_delimiter cfg) = Some data \<and>
           has_required_predictors data \<and>
           generate cfg rand data = Inr out \<and>
           to_csv lib \<lparr> frame = out, path_or_buf = output_filename cfg,
                          sep = output_delimiter cfg, index = False \<rparr> = Written text \<and>
           fs' = fs(output_filename cfg \<mapsto> text)"
proof -
  from assms obtain content where present: "fs (input_filename cfg) = Some content"
    by (cases "fs (input_filename cfg)") (auto simp add: main_def)
  from assms present obtain data
    where parsed: "read_csv lib content (input_delimiter cfg) = Some data"
    by (cases "read_csv lib content (input_delimiter cfg)") (auto simp add: main_def)
  from assms present parsed have valid: "has_required_predictors data"
    by (cases "has_required_predictors data") (auto simp add: main_def)
  from assms present parsed valid obtain out where gen: "generate cfg rand data = Inr out"
    by (cases "generate cfg rand data") (auto simp add: main_def)
  from assms present parsed valid gen
  have "export lib fs \<lparr> frame = out, path_or_buf = output_filename cfg,
                          sep = output_delimiter cfg, index = False \<rparr> = (Inr (), fs')"
    by (simp add: main_def)
  from export_cases [OF this] obtain written
    where "to_csv lib \<lparr> frame = out, path_or_buf = output_filename cfg,
                          sep = output_delimiter cfg, index = False \<rparr> = Written written"
      and "fs' = fs(output_filename cfg \<mapsto> written)"
    by auto
  with present parsed valid gen show ?thesis
    by blast
qed

text \<open>The theorem on the sample file: the header stand-in shows the columns written.\<close>

theorem successful_run_files_witness:
  "main default_config sample_library mid_draw sample_files =
     (Inr (),
      sample_files(output_filename default_config \<mapsto>
        ''Name,Hours_Studied,Previous_Score,Attendance_Rate,Final_Exam_Score,Passed_Course'')) \<and>
   (\<exists>content data out text.
      sample_files (input_filename default_config) = Some content \<and>
      read_csv sample_library content (input_delimiter default_config) = Some data \<and>
      has_required_predictors data \<and>
      generate default_config mid_draw data = Inr out \<and>
      to_csv sample_library
        \<lparr> frame = out, path_or_buf = output_filename default_config,
          sep = output_delimiter default_config, index = False \<rparr> = Written text \<and>
      sample_files(output_filename default_config \<mapsto>
        ''Name,Hours_Studied,Previous_Score,Attendance_Rate,Final_Exam_Score,Passed_Course'') =
        sample_files(output_filename default_config \<mapsto> text))"
proof -
  have gen: "generate default_config mid_draw two_students = Inr two_students_out"
    by (simp add: frame_ops two_students_def two_students_out_def upt_rec)
  have valid: "has_required_predictors two_students"
    by (simp add: has_required_predictors_def required_predictors_def columns_def
        two_students_def)
  have run: "main default_config sample_library mid_draw sample_files =
     (Inr (),
      sample_files(output_filename default_config \<mapsto>
        ''Name,Hours_Studied,Previous_Score,Attendance_Rate,Final_Exam_Score,Passed_Course''))"
    using gen valid
    by (simp add: main_def export_def sample_library_def sample_files_def default_config_def
        columns_def two_students_out_def)
  from successful_run_files [OF run] run show ?thesis
    by (intro conjI)
qed

text \<open>
  Property X4. Whatever columns the input has, the output of lines 78-97 has no column
  \<^verbatim>\<open>Final_Exam_Score_brut\<close> and has the columns \<^verbatim>\<open>Final_Exam_Score\<close> and \<^verbatim>\<open>Passed_Course\<close>.
\<close>

theorem raw_column_never_exported:
  assumes "generate cfg rand data = Inr out"
  shows "getitem out ''Final_Exam_Score_brut'' = Inl KeyError \<and>
         ''Final_Exam_Score_brut'' \<notin> set (columns out) \<and>
         ''Final_Exam_Score'' \<in> set (columns out) \<and>
         ''Passed_Course'' \<in> set (columns out)"
  using assms
  by (auto simp add: generate_Inr getitem_drop_same columns_drop_column columns_setitem
      simp del: map_map)

text \<open>The theorem on the table that comes with a column of that name.\<close>

theorem raw_column_never_exported_witness:
  "generate default_config mid_draw with_draft_column =
     Inr \<lparr> nrows = 1,
           cols = [(''Hours_Studied'', [IntCell 0]),
                   (''Previous_Score'', [IntCell 0]),
                   (''Attendance_Rate'', [IntCell 0]),
                   (''Final_Exam_Score'', [FloatCell (Fin 8)]),
                   (''Passed_Course'', [IntCell 0])] \<rparr> \<and>
   getitem \<lparr> nrows = 1,
           cols = [(''Hours_Studied'', [IntCell 0]),
                   (''Previous_Score'', [IntCell 0]),
                   (''Attendance_Rate'', [IntCell 0]),
                   (''Final_Exam_Score'', [FloatCell (Fin 8)]),
                   (''Passed_Course'', [IntCell 0])] \<rparr> ''Final_Exam_Score_brut'' = Inl KeyError"
proof -
  have gen: "generate default_config mid_draw with_draft_column =
     Inr \<lparr> nrows = 1,
           cols = [(''Hours_Studied'', [IntCell 0]),
                   (''Previous_Score'', [IntCell 0]),
                   (''Attendance_Rate'', [IntCell 0]),
                   (''Final_Exam_Score'', [FloatCell (Fin 8)]),
                   (''Passed_Course'', [IntCell 0])] \<rparr>"
    by (simp add: frame_ops with_draft_column_def upt_rec)
  from raw_column_never_exported [OF gen] have "getitem \<lparr> nrows = 1,
           cols = [(''Hours_Studied'', [IntCell 0]),
                   (''Previous_Score'', [IntCell 0]),
                   (''Attendance_Rate'', [IntCell 0]),
                   (''Final_Exam_Score'', [FloatCell (Fin 8)]),
                   (''Passed_Course'', [IntCell 0])] \<rparr> ''Final_Exam_Score_brut'' = Inl KeyError"
    by (rule conjunct1)
  with gen show ?thesis
    by (intro conjI)
qed

end
